theory Spec2Isabelle
  imports Complex_Main "HOL-Library.Word"
begin

section \<open>Samples and the PCM encoder\<close>

text \<open>
  A JavaScript number as it can sit in a \<^verbatim>\<open>Float32Array\<close>: a finite value, one of
  the two infinities, or NaN. Finite values are modelled by the real they denote. Every
  finite element of a \<^verbatim>\<open>Float32Array\<close> is a binary32 value, and its product with
  \<open>32768 = 2 ^ 15\<close> is computed in binary64 without rounding, so the arithmetic of
  \<^verbatim>\<open>audioData[i] * 32768\<close> on finite samples is the arithmetic of the reals.
\<close>

datatype js_number = Num real | PosInfinity | NegInfinity | NaN

type_synonym frame = "js_number list"

text \<open>\<^verbatim>\<open>x * 32768\<close>: multiplication by a positive finite constant.\<close>

fun times_32768 :: "js_number \<Rightarrow> js_number" where
  "times_32768 (Num r) = Num (r * 32768)"
| "times_32768 PosInfinity = PosInfinity"
| "times_32768 NegInfinity = NegInfinity"
| "times_32768 NaN = NaN"

text \<open>\<^verbatim>\<open>Math.min\<close> and \<^verbatim>\<open>Math.max\<close>: NaN if either argument is NaN.\<close>

fun Math_min :: "js_number \<Rightarrow> js_number \<Rightarrow> js_number" where
  "Math_min NaN _ = NaN"
| "Math_min _ NaN = NaN"
| "Math_min NegInfinity _ = NegInfinity"
| "Math_min _ NegInfinity = NegInfinity"
| "Math_min PosInfinity b = b"
| "Math_min a PosInfinity = a"
| "Math_min (Num a) (Num b) = Num (min a b)"

fun Math_max :: "js_number \<Rightarrow> js_number \<Rightarrow> js_number" where
  "Math_max NaN _ = NaN"
| "Math_max _ NaN = NaN"
| "Math_max PosInfinity _ = PosInfinity"
| "Math_max _ PosInfinity = PosInfinity"
| "Math_max NegInfinity b = b"
| "Math_max a NegInfinity = a"
| "Math_max (Num a) (Num b) = Num (max a b)"

text \<open>Truncation towards zero, the integer part that \<^verbatim>\<open>ToInt16\<close> takes.\<close>

definition js_truncate :: "real \<Rightarrow> int" where
  "js_truncate r = (if r < 0 then \<lceil>r\<rceil> else \<lfloor>r\<rfloor>)"

text \<open>
  Storing a number into an \<^verbatim>\<open>Int16Array\<close> element (\<^verbatim>\<open>ToInt16\<close>): NaN and the
  infinities become 0, a finite number is truncated towards zero and reduced modulo
  \<open>2 ^ 16\<close>. The element is read back as a signed value with \<open>sint\<close>.
\<close>

fun ToInt16 :: "js_number \<Rightarrow> 16 word" where
  "ToInt16 (Num r) = word_of_int (js_truncate r)"
| "ToInt16 PosInfinity = 0"
| "ToInt16 NegInfinity = 0"
| "ToInt16 NaN = 0"

text \<open>
  The body of the loop of \<^verbatim>\<open>sendAudioData\<close>:
  \<^verbatim>\<open>pcmData[i] = Math.max(-32768, Math.min(32767, audioData[i] * 32768))\<close>.
\<close>

definition encode_sample :: "js_number \<Rightarrow> 16 word" where
  "encode_sample x =
     ToInt16 (Math_max (Num (- 32768)) (Math_min (Num 32767) (times_32768 x)))"

text \<open>The loop over the frame fills a fresh \<^verbatim>\<open>Int16Array\<close> of the same length.\<close>

definition encode_frame :: "frame \<Rightarrow> 16 word list" where
  "encode_frame audioData = map encode_sample audioData"

text \<open>The encoder the specification describes, written from its words.\<close>

definition spec_clamp :: "int \<Rightarrow> int \<Rightarrow> int \<Rightarrow> int" where
  "spec_clamp v lo hi = max lo (min hi v)"

definition spec_encode :: "real \<Rightarrow> int" where
  "spec_encode x = spec_clamp (round (x * 32768)) (- 32768) 32767"

section \<open>The frame accumulator (audio worklet processor)\<close>

datatype js_error = TypeError | RangeError

record AudioProcessor =
  frameSize :: nat
  buffer :: frame
  bufferIndex :: nat

text \<open>
  The constructor: \<^verbatim>\<open>options.processorOptions?.frameSize || 320\<close>. The option is absent
  (\<open>None\<close>) or a non-negative integer; both absence and 0 are falsy and give 320. The
  buffer is a zero-filled \<^verbatim>\<open>Float32Array\<close> of that length.
\<close>

definition constructor :: "nat option \<Rightarrow> AudioProcessor" where
  "constructor processorOptions_frameSize =
     (let fs = (case processorOptions_frameSize of
                  None \<Rightarrow> 320
                | Some n \<Rightarrow> if n = 0 then 320 else n)
      in \<lparr> frameSize = fs, buffer = replicate fs (Num 0), bufferIndex = 0 \<rparr>)"

text \<open>
  \<^verbatim>\<open>sendAudioFrame\<close> posts a copy of the whole buffer on the port; the frame posted is
  the value returned here.
\<close>

definition sendAudioFrame :: "AudioProcessor \<Rightarrow> frame" where
  "sendAudioFrame p = buffer p"

text \<open>
  The loop of \<^verbatim>\<open>process\<close> over the input channel. A typed-array store at an index
  outside the array is ignored, as \<open>list_update\<close> is. The second component collects
  the frames posted, in order.
\<close>

fun process_loop :: "AudioProcessor \<Rightarrow> frame \<Rightarrow> AudioProcessor \<times> frame list" where
  "process_loop p [] = (p, [])"
| "process_loop p (x # xs) =
     (let p1 = p\<lparr> buffer := (buffer p)[bufferIndex p := x] \<rparr>;
          p2 = p1\<lparr> bufferIndex := bufferIndex p1 + 1 \<rparr>
      in if bufferIndex p2 \<ge> frameSize p2
         then (let (p', fs) = process_loop (p2\<lparr> bufferIndex := 0 \<rparr>) xs
               in (p', sendAudioFrame p2 # fs))
         else process_loop p2 xs)"

text \<open>
  \<^verbatim>\<open>process(inputs, outputs, parameters)\<close>. \<open>inputs\<close> and \<open>outputs\<close> are lists of
  ports, a port is a list of channels, a channel a list of samples. Reading
  \<^verbatim>\<open>.length\<close> of a missing first input, or element 0 of a missing first output, raises
  TypeError; \<^verbatim>\<open>outputChannel.set(inputChannel)\<close> raises RangeError when the source is
  longer than the target. The result holds the processor, the outputs as written, and
  the frames posted; the JavaScript return value is always \<^verbatim>\<open>true\<close>.
\<close>

definition process ::
  "AudioProcessor \<Rightarrow> frame list list \<Rightarrow> frame list list
     \<Rightarrow> js_error + (AudioProcessor \<times> frame list list \<times> frame list)" where
  "process p inputs outputs =
     (case inputs of
        [] \<Rightarrow> Inl TypeError
      | input # _ \<Rightarrow>
          (case input of
             [] \<Rightarrow> Inr (p, outputs, [])
           | inputChannel # _ \<Rightarrow>
               (case outputs of
                  [] \<Rightarrow> Inl TypeError
                | output # outputs_rest \<Rightarrow>
                    (case output of
                       [] \<Rightarrow>
                         (let (p', fs) = process_loop p inputChannel
                          in Inr (p', outputs, fs))
                     | outputChannel # output_rest \<Rightarrow>
                         if length inputChannel > length outputChannel
                         then Inl RangeError
                         else (let written = inputChannel @ drop (length inputChannel) outputChannel;
                                   (p', fs) = process_loop p inputChannel
                               in Inr (p', (written # output_rest) # outputs_rest, fs))))))"

text \<open>
  A run of the processor over successive render quanta: each delivery is the pair of
  \<open>inputs\<close> and \<open>outputs\<close> of one call to \<^verbatim>\<open>process\<close>. An exception ends the run.
\<close>

fun run_process ::
  "AudioProcessor \<Rightarrow> (frame list list \<times> frame list list) list
     \<Rightarrow> js_error + (AudioProcessor \<times> frame list)" where
  "run_process p [] = Inr (p, [])"
| "run_process p ((inputs, outputs) # ds) =
     (case process p inputs outputs of
        Inl e \<Rightarrow> Inl e
      | Inr (p', _, fs) \<Rightarrow>
          (case run_process p' ds of
             Inl e \<Rightarrow> Inl e
           | Inr (p'', fs') \<Rightarrow> Inr (p'', fs @ fs')))"

text \<open>The samples one delivery carries: the first channel of the first input, if any.\<close>

fun delivered :: "frame list list \<times> frame list list \<Rightarrow> frame" where
  "delivered (input # _, _) = (case input of [] \<Rightarrow> [] | inputChannel # _ \<Rightarrow> inputChannel)"
| "delivered ([], _) = []"

text \<open>
  A delivery the audio engine can make: a first input exists, and when it has a channel
  there is a first output whose first channel, if present, is at least as long.
\<close>

fun well_formed :: "frame list list \<times> frame list list \<Rightarrow> bool" where
  "well_formed ([], _) = False"
| "well_formed ([] # _, _) = True"
| "well_formed ((inputChannel # _) # _, []) = False"
| "well_formed ((inputChannel # _) # _, [] # _) = True"
| "well_formed ((inputChannel # _) # _, (outputChannel # _) # _) =
     (length inputChannel \<le> length outputChannel)"

section \<open>The client\<close>

text \<open>
  The state label passed to \<^verbatim>\<open>updateStatus\<close> (the CSS class of the status element):
  one of the literals \<^verbatim>\<open>'disconnected'\<close>, \<^verbatim>\<open>'connecting'\<close>, \<^verbatim>\<open>'connected'\<close>,
  \<^verbatim>\<open>'listening'\<close>, \<^verbatim>\<open>'speaking'\<close>.
\<close>

datatype status_type = Disconnected | Connecting | Connected | Listening | Speaking

text \<open>
  Exceptions: an error raised by the platform with its message, a property read on
  \<^verbatim>\<open>null\<close>, the syntax error of \<^verbatim>\<open>JSON.parse\<close>, and the two errors the client
  constructs itself (the audio initialisation error wraps the message of its cause).
\<close>

datatype exn =
  PlatformError string | NullTypeError | JsonSyntaxError | AudioInitError exn | WebSocketError

text \<open>
  The texts the client writes into the page. The literals in the source are Japanese;
  each constructor stands for one literal, named by its meaning.
\<close>

datatype ui_text =
    TxtWaiting               \<comment> \<open>status: waiting for connection\<close>
  | TxtConnecting            \<comment> \<open>status: connecting\<close>
  | TxtConnected             \<comment> \<open>status: connected\<close>
  | TxtConnectFailed exn     \<comment> \<open>status: connection failed, followed by the message\<close>
  | TxtListening             \<comment> \<open>status: recognising speech\<close>
  | TxtListeningTestMode     \<comment> \<open>status: recognising speech (test mode)\<close>
  | TxtClosed                \<comment> \<open>status: the connection was closed\<close>
  | TxtServerError "string option"  \<comment> \<open>status: error, followed by the server's message\<close>
  | TxtSpeaking              \<comment> \<open>status: the bot is responding\<close>
  | TxtMuted                 \<comment> \<open>status: muted\<close>
  | TxtDisconnected          \<comment> \<open>status: disconnected by the user\<close>
  | BtnConnect               \<comment> \<open>connect button: connect\<close>
  | BtnDisconnect            \<comment> \<open>connect button: disconnect\<close>
  | BtnMute                  \<comment> \<open>mute button: mute\<close>
  | BtnUnmute                \<comment> \<open>mute button: unmute\<close>

text \<open>A control message: its \<^verbatim>\<open>type\<close> and, for errors, its \<^verbatim>\<open>message\<close>.\<close>

datatype control_message = ControlMessage string "string option"

text \<open>
  An inbound control message as \<^verbatim>\<open>JSON.parse\<close> returns it: the fields \<^verbatim>\<open>type\<close> and
  \<^verbatim>\<open>message\<close> of the value, each \<open>None\<close> when the value has no such field.
\<close>

datatype inbound_message = InboundMessage "string option" "string option"

datatype ready_state = CONNECTING | OPEN | CLOSING | CLOSED

datatype timer_callback = MockAudioCallback | PingCallback

text \<open>
  What the client does to the world outside its own fields, in the order it happens:
  calls on the socket, on the audio graph and on the console, and the call of
  \<^verbatim>\<open>updateAudioVisualizer\<close> with its argument (the bar heights it then writes are
  rendering detail and are not modelled).
\<close>

datatype effect =
    WebSocketNew
  | WsSendBinary "16 word list"
  | WsSendText control_message
  | WsClose
  | NodeDisconnect
  | ContextClose
  | TrackStop
  | SourceStart
  | Visualize frame
  | ConsoleLog string
  | ConsoleLogMessage string "inbound_message option"
  | ConsoleLogText string "string option"
  | ConsoleWarn string exn
  | ConsoleError string "exn option"
  | ConsoleErrorText string "string option"

text \<open>
  The fields of \<^verbatim>\<open>VoiceBotClient\<close>, the contents of the three page elements it
  writes, the interval timers of the page that are active, and the effects so far.
  \<open>ws\<close> holds the \<^verbatim>\<open>readyState\<close> of the socket the field refers to;
  \<open>mediaStream\<close> the number of tracks of the stream; \<open>audioContext\<close> the sample rate
  the context was created with; \<open>audioWorkletNode\<close> the node with its processor.
\<close>

record VoiceBotClient =
  ws :: "ready_state option"
  audioContext :: "nat option"
  mediaStream :: "nat option"
  audioWorkletNode :: "AudioProcessor option"
  isConnected :: bool
  isMuted :: bool
  isListening :: bool
  isSpeaking :: bool
  mockAudioInterval :: "nat option"
  status_className :: status_type
  status_textContent :: ui_text
  connectBtn_textContent :: ui_text
  muteBtn_disabled :: bool
  muteBtn_textContent :: ui_text
  intervals :: "(nat \<times> timer_callback \<times> nat) list"
  last_timer_id :: nat
  effects :: "effect list"

definition sampleRate :: nat where
  "sampleRate = 16000"

definition client_frameSize :: nat where
  "client_frameSize = 320"

definition emit :: "VoiceBotClient \<Rightarrow> effect list \<Rightarrow> VoiceBotClient" where
  "emit c es = c\<lparr> effects := effects c @ es \<rparr>"

text \<open>
  \<^verbatim>\<open>setInterval\<close> registers a callback with its period in milliseconds and returns a
  fresh identifier, an integer greater than zero; \<^verbatim>\<open>clearInterval\<close> removes the
  timer with that identifier. Only a registered timer fires.
\<close>

definition setInterval :: "VoiceBotClient \<Rightarrow> timer_callback \<Rightarrow> nat \<Rightarrow> nat \<times> VoiceBotClient" where
  "setInterval c cb period =
     (let timerId = last_timer_id c + 1
      in (timerId,
          c\<lparr> intervals := intervals c @ [(timerId, cb, period)], last_timer_id := timerId \<rparr>))"

definition clearInterval :: "VoiceBotClient \<Rightarrow> nat \<Rightarrow> VoiceBotClient" where
  "clearInterval c timerId =
     c\<lparr> intervals := filter (\<lambda>t. fst t \<noteq> timerId) (intervals c) \<rparr>"

definition updateStatus :: "VoiceBotClient \<Rightarrow> status_type \<Rightarrow> ui_text \<Rightarrow> VoiceBotClient" where
  "updateStatus c type message = c\<lparr> status_className := type, status_textContent := message \<rparr>"

definition updateAudioVisualizer :: "VoiceBotClient \<Rightarrow> frame \<Rightarrow> VoiceBotClient" where
  "updateAudioVisualizer c audioData = emit c [Visualize audioData]"

text \<open>
  The constructor and \<^verbatim>\<open>initializeUI\<close>. The initial contents of the two buttons come
  from the page's markup, which is not part of the source: they are parameters.
\<close>

definition new_VoiceBotClient :: "ui_text \<Rightarrow> bool \<Rightarrow> ui_text \<Rightarrow> VoiceBotClient" where
  "new_VoiceBotClient connectBtn_text muteBtn_dis muteBtn_text =
     \<lparr> ws = None, audioContext = None, mediaStream = None, audioWorkletNode = None,
       isConnected = False, isMuted = False, isListening = False, isSpeaking = False,
       mockAudioInterval = None,
       status_className = Disconnected, status_textContent = TxtWaiting,
       connectBtn_textContent = connectBtn_text,
       muteBtn_disabled = muteBtn_dis, muteBtn_textContent = muteBtn_text,
       intervals = [], last_timer_id = 0, effects = [] \<rparr>"

text \<open>\<^verbatim>\<open>sendAudioData\<close> and \<^verbatim>\<open>sendControlMessage\<close>: guarded by
  \<^verbatim>\<open>this.ws && this.ws.readyState === WebSocket.OPEN\<close>.\<close>

definition sendAudioData :: "VoiceBotClient \<Rightarrow> frame \<Rightarrow> VoiceBotClient" where
  "sendAudioData c audioData =
     (case ws c of
        Some OPEN \<Rightarrow> emit c [WsSendBinary (encode_frame audioData)]
      | _ \<Rightarrow> c)"

definition sendControlMessage :: "VoiceBotClient \<Rightarrow> control_message \<Rightarrow> VoiceBotClient" where
  "sendControlMessage c message =
     (case ws c of
        Some OPEN \<Rightarrow> emit c [WsSendText message]
      | _ \<Rightarrow> c)"

text \<open>The handler \<^verbatim>\<open>audioWorkletNode.port.onmessage\<close> installed by \<^verbatim>\<open>setupRealAudio\<close>.\<close>

definition port_onmessage :: "VoiceBotClient \<Rightarrow> string \<Rightarrow> frame \<Rightarrow> VoiceBotClient" where
  "port_onmessage c type data =
     (if type = ''audioData'' \<and> \<not> isMuted c
      then updateStatus (updateAudioVisualizer (sendAudioData c data) data) Listening TxtListening
      else c)"

text \<open>
  One render quantum on the real capture path: the processor of the worklet node runs
  \<^verbatim>\<open>process\<close>, and every frame it posts reaches the handler, in order. A processor
  whose \<^verbatim>\<open>process\<close> raised posts nothing.
\<close>

definition capture ::
  "VoiceBotClient \<Rightarrow> frame list list \<Rightarrow> frame list list \<Rightarrow> VoiceBotClient" where
  "capture c inputs outputs =
     (case audioWorkletNode c of
        None \<Rightarrow> c
      | Some p \<Rightarrow>
          (case process p inputs outputs of
             Inl e \<Rightarrow> c
           | Inr (p', _, frames) \<Rightarrow>
               foldl (\<lambda>c' f. port_onmessage c' ''audioData'' f)
                 (c\<lparr> audioWorkletNode := Some p' \<rparr>) frames))"

text \<open>
  The callback of the mock timer of \<^verbatim>\<open>setupMockAudio\<close>. The two uses of
  \<^verbatim>\<open>Math.random\<close> are parameters: \<open>mockData\<close> is the noise frame as filled by the
  loop, \<open>chance\<close> the outcome of \<^verbatim>\<open>Math.random() < 0.1\<close>.
\<close>

definition mock_callback :: "VoiceBotClient \<Rightarrow> frame \<Rightarrow> bool \<Rightarrow> VoiceBotClient" where
  "mock_callback c mockData chance =
     (if \<not> isMuted c \<and> isConnected c
      then (let c1 = updateAudioVisualizer (sendAudioData c mockData) mockData
            in if chance then updateStatus c1 Listening TxtListeningTestMode else c1)
      else c)"

text \<open>The callback of \<^verbatim>\<open>startPingInterval\<close>, and the function itself.\<close>

definition ping_callback :: "VoiceBotClient \<Rightarrow> VoiceBotClient" where
  "ping_callback c =
     (if isConnected c then sendControlMessage c (ControlMessage ''ping'' None) else c)"

definition startPingInterval :: "VoiceBotClient \<Rightarrow> VoiceBotClient" where
  "startPingInterval client = snd (setInterval client PingCallback 30000)"

text \<open>
  A timer of the page fires: its callback runs if the timer is still registered, and
  nothing happens otherwise.
\<close>

definition timer_fires :: "VoiceBotClient \<Rightarrow> nat \<Rightarrow> frame \<Rightarrow> bool \<Rightarrow> VoiceBotClient" where
  "timer_fires c timerId mockData chance =
     (case map_of (intervals c) timerId of
        None \<Rightarrow> c
      | Some (MockAudioCallback, _) \<Rightarrow> mock_callback c mockData chance
      | Some (PingCallback, _) \<Rightarrow> ping_callback c)"

subsection \<open>Teardown\<close>

text \<open>
  \<^verbatim>\<open>cleanup\<close>. Each resource is released only if its field is truthy, and the field
  is then set to \<^verbatim>\<open>null\<close>. A timer identifier is truthy unless it is 0; the handles
  are objects. None of the platform calls made here raises.
\<close>

definition cleanup :: "VoiceBotClient \<Rightarrow> VoiceBotClient" where
  "cleanup c =
     (let c1 = (case mockAudioInterval c of
                  None \<Rightarrow> c
                | Some timerId \<Rightarrow>
                    if timerId \<noteq> 0
                    then (clearInterval c timerId)\<lparr> mockAudioInterval := None \<rparr>
                    else c);
          c2 = (case ws c1 of
                  None \<Rightarrow> c1
                | Some _ \<Rightarrow> (emit c1 [WsClose])\<lparr> ws := None \<rparr>);
          c3 = (case audioWorkletNode c2 of
                  None \<Rightarrow> c2
                | Some _ \<Rightarrow> (emit c2 [NodeDisconnect])\<lparr> audioWorkletNode := None \<rparr>);
          c4 = (case audioContext c3 of
                  None \<Rightarrow> c3
                | Some _ \<Rightarrow> (emit c3 [ContextClose])\<lparr> audioContext := None \<rparr>);
          c5 = (case mediaStream c4 of
                  None \<Rightarrow> c4
                | Some tracks \<Rightarrow> (emit c4 (replicate tracks TrackStop))\<lparr> mediaStream := None \<rparr>)
      in c5\<lparr> isConnected := False,
              connectBtn_textContent := BtnConnect,
              muteBtn_disabled := True,
              muteBtn_textContent := BtnMute,
              isMuted := False \<rparr>)"

definition disconnect :: "VoiceBotClient \<Rightarrow> VoiceBotClient" where
  "disconnect c = updateStatus (cleanup c) Disconnected TxtDisconnected"

definition toggleMute :: "VoiceBotClient \<Rightarrow> VoiceBotClient" where
  "toggleMute c =
     (let c1 = c\<lparr> isMuted := \<not> isMuted c \<rparr>;
          c2 = c1\<lparr> muteBtn_textContent := (if isMuted c1 then BtnUnmute else BtnMute) \<rparr>
      in if isMuted c2
         then updateStatus c2 Connected TxtMuted
         else updateStatus c2 Connected TxtConnected)"

text \<open>
  A socket the client made is closed, and its handler \<^verbatim>\<open>ws.onclose\<close> runs. \<open>held\<close>
  says whether the field \<^verbatim>\<open>this.ws\<close> still refers to that socket: if so, the
  \<^verbatim>\<open>readyState\<close> read through the field is \<^verbatim>\<open>CLOSED\<close> from then on. The handler
  itself writes neither the field nor the mute flag.
\<close>

definition ws_onclose :: "VoiceBotClient \<Rightarrow> bool \<Rightarrow> VoiceBotClient" where
  "ws_onclose c held =
     (let c0 = (if held then c\<lparr> ws := map_option (\<lambda>_. CLOSED) (ws c) \<rparr> else c)
      in updateStatus
           ((emit c0 [ConsoleLog ''WebSocket disconnected''])
              \<lparr> isConnected := False, connectBtn_textContent := BtnConnect,
                 muteBtn_disabled := True \<rparr>)
           Disconnected TxtClosed)"

subsection \<open>Connecting\<close>

text \<open>
  What the platform answers during one connect attempt. For each call that can fail,
  \<open>Some m\<close> (or \<open>Inl m\<close>) is the message of the error it raises. \<open>getUserMedia\<close>
  yields the number of tracks of the stream.
\<close>

datatype ws_outcome = WsOpens | WsErrors

record connect_env =
  getUserMedia :: "string + nat"
  real_AudioContext :: "string option"
  addModule :: "string option"
  new_AudioWorkletNode :: "string option"
  connect_graph :: "string option"
  mock_AudioContext :: "string option"
  websocket :: ws_outcome

text \<open>
  An asynchronous function either returns or throws; in both cases the fields it has
  written so far stay written. \<open>Inl (e, c)\<close> is the exception with the client as it is
  when the exception is raised.
\<close>

type_synonym outcome = "(exn \<times> VoiceBotClient) + VoiceBotClient"

definition setupRealAudio :: "VoiceBotClient \<Rightarrow> connect_env \<Rightarrow> outcome" where
  "setupRealAudio c env =
     (case real_AudioContext env of
        Some m \<Rightarrow> Inl (PlatformError m, c)
      | None \<Rightarrow>
          (let c1 = c\<lparr> audioContext := Some sampleRate \<rparr>
           in case addModule env of
                Some m \<Rightarrow> Inl (PlatformError m, c1)
              | None \<Rightarrow>
                  (case new_AudioWorkletNode env of
                     Some m \<Rightarrow> Inl (PlatformError m, c1)
                   | None \<Rightarrow>
                       (let c2 = c1\<lparr> audioWorkletNode :=
                                        Some (constructor (Some client_frameSize)) \<rparr>
                        in case connect_graph env of
                             Some m \<Rightarrow> Inl (PlatformError m, c2)
                           | None \<Rightarrow> Inr c2))))"

definition setupMockAudio :: "VoiceBotClient \<Rightarrow> connect_env \<Rightarrow> outcome" where
  "setupMockAudio c env =
     (case mock_AudioContext env of
        Some m \<Rightarrow> Inl (PlatformError m, c)
      | None \<Rightarrow>
          (let c1 = c\<lparr> audioContext := Some sampleRate \<rparr>;
               c2 = emit c1 [ConsoleLog ''Mock audio mode: simulating audio input for testing''];
               (timerId, c3) = setInterval c2 MockAudioCallback 20
           in Inr (c3\<lparr> mockAudioInterval := Some timerId \<rparr>)))"

text \<open>
  \<^verbatim>\<open>initializeAudio\<close>: the inner \<^verbatim>\<open>try\<close> catches a failure of \<^verbatim>\<open>getUserMedia\<close>
  or of \<^verbatim>\<open>setupRealAudio\<close> and falls back to \<^verbatim>\<open>setupMockAudio\<close>; the outer one
  wraps a failure of the fallback.
\<close>

definition initializeAudio :: "VoiceBotClient \<Rightarrow> connect_env \<Rightarrow> outcome" where
  "initializeAudio c env =
     (let inner =
        (case getUserMedia env of
           Inl m \<Rightarrow> Inl (PlatformError m, c)
         | Inr tracks \<Rightarrow>
             setupRealAudio
               (emit (c\<lparr> mediaStream := Some tracks \<rparr>) [ConsoleLog ''Real microphone initialized''])
               env)
      in case inner of
           Inr c' \<Rightarrow> Inr c'
         | Inl (micError, c') \<Rightarrow>
             (case setupMockAudio
                     (emit c' [ConsoleWarn ''Real microphone not available, using mock audio:'' micError])
                     env of
                Inr c'' \<Rightarrow> Inr c''
              | Inl (error, c'') \<Rightarrow> Inl (AudioInitError error, c'')))"

text \<open>
  \<^verbatim>\<open>connectWebSocket\<close>: the socket is constructed, and the promise settles when the
  handshake completes (\<^verbatim>\<open>onopen\<close>: the ready message is sent) or fails
  (\<^verbatim>\<open>onerror\<close>, the socket being closed by then). The address is built from the
  page's own location, so the constructor itself does not raise.
\<close>

definition connectWebSocket :: "VoiceBotClient \<Rightarrow> connect_env \<Rightarrow> outcome" where
  "connectWebSocket c env =
     (let c1 = (emit c [WebSocketNew])\<lparr> ws := Some CONNECTING \<rparr>
      in case websocket env of
           WsOpens \<Rightarrow>
             Inr (sendControlMessage
                    (emit (c1\<lparr> ws := Some OPEN \<rparr>) [ConsoleLog ''WebSocket connected''])
                    (ControlMessage ''ready'' None))
         | WsErrors \<Rightarrow>
             Inl (WebSocketError,
                  emit (c1\<lparr> ws := Some CLOSED \<rparr>) [ConsoleError ''WebSocket error:'' None]))"

definition connect_catch :: "VoiceBotClient \<Rightarrow> exn \<Rightarrow> VoiceBotClient" where
  "connect_catch c error =
     cleanup (updateStatus (emit c [ConsoleError ''Connection failed:'' (Some error)])
                Disconnected (TxtConnectFailed error))"

text \<open>\<^verbatim>\<open>connect\<close>, run to its end with no other event of the page in between.\<close>

definition connect :: "VoiceBotClient \<Rightarrow> connect_env \<Rightarrow> VoiceBotClient" where
  "connect c env =
     (let c0 = updateStatus c Connecting TxtConnecting
      in case initializeAudio c0 env of
           Inl (error, c1) \<Rightarrow> connect_catch c1 error
         | Inr c1 \<Rightarrow>
             (case connectWebSocket c1 env of
                Inl (error, c2) \<Rightarrow> connect_catch c2 error
              | Inr c2 \<Rightarrow>
                  updateStatus
                    (c2\<lparr> isConnected := True, connectBtn_textContent := BtnDisconnect,
                         muteBtn_disabled := False \<rparr>)
                    Connected TxtConnected))"

text \<open>The page's \<^verbatim>\<open>DOMContentLoaded\<close> handler: a client, then the ping timer.\<close>

definition page_load :: "ui_text \<Rightarrow> bool \<Rightarrow> ui_text \<Rightarrow> VoiceBotClient" where
  "page_load connectBtn_text muteBtn_dis muteBtn_text =
     startPingInterval (new_VoiceBotClient connectBtn_text muteBtn_dis muteBtn_text)"

subsection \<open>Playback\<close>

datatype decode_result = Decoded | DecodeRejected string

definition playAudioResponse_catch :: "VoiceBotClient \<Rightarrow> exn \<Rightarrow> VoiceBotClient" where
  "playAudioResponse_catch c error =
     updateStatus (emit c [ConsoleError ''Error playing audio response:'' (Some error)])
       Connected TxtConnected"

text \<open>
  \<^verbatim>\<open>playAudioResponse\<close> up to its \<^verbatim>\<open>await\<close>: the status is set, and the decoder of
  the audio context is called. With no audio context the call raises at once and the
  function is over (\<open>False\<close>); otherwise it is suspended (\<open>True\<close>).
\<close>

definition playAudioResponse_begin :: "VoiceBotClient \<Rightarrow> bool \<times> VoiceBotClient" where
  "playAudioResponse_begin c =
     (let c1 = updateStatus c Speaking TxtSpeaking
      in case audioContext c1 of
           None \<Rightarrow> (False, playAudioResponse_catch c1 NullTypeError)
         | Some _ \<Rightarrow> (True, c1))"

text \<open>
  The rest of \<^verbatim>\<open>playAudioResponse\<close>, run when the decoder settles. \<open>start_error\<close> is
  the error, if any, that building and starting the buffer source raises.
\<close>

definition playAudioResponse_resume ::
  "VoiceBotClient \<Rightarrow> decode_result \<Rightarrow> string option \<Rightarrow> VoiceBotClient" where
  "playAudioResponse_resume c decoded start_error =
     (case decoded of
        DecodeRejected m \<Rightarrow> playAudioResponse_catch c (PlatformError m)
      | Decoded \<Rightarrow>
          (case audioContext c of
             None \<Rightarrow> playAudioResponse_catch c NullTypeError
           | Some _ \<Rightarrow>
               (case start_error of
                  Some m \<Rightarrow> playAudioResponse_catch c (PlatformError m)
                | None \<Rightarrow> emit c [SourceStart])))"

text \<open>The handler \<^verbatim>\<open>source.onended\<close>.\<close>

definition source_onended :: "VoiceBotClient \<Rightarrow> VoiceBotClient" where
  "source_onended c = updateStatus c Connected TxtConnected"

text \<open>One inbound payload handled with no other event of the page in between.\<close>

definition playAudioResponse ::
  "VoiceBotClient \<Rightarrow> decode_result \<Rightarrow> string option \<Rightarrow> VoiceBotClient" where
  "playAudioResponse c decoded start_error =
     (case playAudioResponse_begin c of
        (False, c') \<Rightarrow> c'
      | (True, c') \<Rightarrow> playAudioResponse_resume c' decoded start_error)"

subsection \<open>Simulated time\<close>

text \<open>
  Time in milliseconds. An interval timer started at \<open>start\<close> with period \<open>period\<close>
  fires at \<open>start + period * k\<close> for \<open>k = 1, 2, ...\<close>; these are its firing times
  later than \<open>a\<close> and not later than \<open>b\<close>.
\<close>

definition interval_fire_times :: "nat \<Rightarrow> nat \<Rightarrow> nat \<Rightarrow> nat \<Rightarrow> nat list" where
  "interval_fire_times start period a b =
     filter (\<lambda>t. a < t) (map (\<lambda>k. start + period * k) [1 ..< Suc ((b - start) div period)])"

text \<open>
  The firing times, later than \<open>a\<close> and not later than \<open>b\<close>, of the timer registered
  under \<open>timerId\<close>, which was started at \<open>start\<close>; its period is the one it was
  registered with. A timer that is not registered has none.
\<close>

definition timer_schedule :: "VoiceBotClient \<Rightarrow> nat \<Rightarrow> nat \<Rightarrow> nat \<Rightarrow> nat \<Rightarrow> nat list" where
  "timer_schedule c timerId start a b =
     (case map_of (intervals c) timerId of
        None \<Rightarrow> []
      | Some (cb, period) \<Rightarrow> interval_fire_times start period a b)"

text \<open>
  The page's timer \<open>timerId\<close> firing at each of the given times, with no other event
  in between. \<open>noise\<close> gives the random draws of a mock callback at each time. Every
  entry of the result is a firing time with the effects the firing added.
\<close>

fun fire_timer ::
  "VoiceBotClient \<Rightarrow> nat \<Rightarrow> (nat \<Rightarrow> frame \<times> bool) \<Rightarrow> nat list
     \<Rightarrow> (nat \<times> effect list) list \<times> VoiceBotClient" where
  "fire_timer c timerId noise [] = ([], c)"
| "fire_timer c timerId noise (t # ts) =
     (let c' = timer_fires c timerId (fst (noise t)) (snd (noise t));
          (log, c'') = fire_timer c' timerId noise ts
      in ((t, drop (length (effects c)) (effects c')) # log, c''))"

subsection \<open>Inbound messages\<close>

text \<open>
  A frame arriving on the socket is binary or text. A text frame is given by what
  \<^verbatim>\<open>JSON.parse\<close> makes of it: a syntax error, \<^verbatim>\<open>null\<close>, or a value with its
  \<^verbatim>\<open>type\<close> and \<^verbatim>\<open>message\<close> fields.
\<close>

datatype json_text = InvalidJson | JsonNull | JsonValue inbound_message

datatype ws_frame = BinaryFrame "8 word list" | TextFrame json_text

text \<open>The \<^verbatim>\<open>data\<close> of a message event.\<close>

datatype message_data = ArrayBufferData "8 word list" | BlobData "8 word list" | TextData json_text

text \<open>
  \<^verbatim>\<open>connectWebSocket\<close> constructs the socket and never sets its \<^verbatim>\<open>binaryType\<close>,
  which is \<^verbatim>\<open>'blob'\<close> by default: the socket delivers a binary frame as a
  \<^verbatim>\<open>Blob\<close>.
\<close>

fun inbound :: "ws_frame \<Rightarrow> message_data" where
  "inbound (BinaryFrame payload) = BlobData payload"
| "inbound (TextFrame text) = TextData text"

definition handleControlMessage :: "VoiceBotClient \<Rightarrow> inbound_message \<Rightarrow> VoiceBotClient" where
  "handleControlMessage c message =
     (case message of InboundMessage type msg \<Rightarrow>
        (let c1 = emit c [ConsoleLogMessage ''Control message received:'' (Some message)]
         in if type = Some ''ready_ack''
            then emit c1 [ConsoleLog ''Server ready for audio processing'']
            else if type = Some ''pong''
            then emit c1 [ConsoleLog ''Pong received'']
            else if type = Some ''config_updated''
            then emit c1 [ConsoleLog ''Configuration updated'']
            else if type = Some ''error''
            then updateStatus (emit c1 [ConsoleErrorText ''Server error:'' msg])
                   Disconnected (TxtServerError msg)
            else emit c1 [ConsoleLogText ''Unknown message type:'' type]))"

text \<open>
  The handler \<^verbatim>\<open>ws.onmessage\<close>. Data that is an \<^verbatim>\<open>ArrayBuffer\<close> starts
  \<^verbatim>\<open>playAudioResponse\<close>, which runs up to its \<^verbatim>\<open>await\<close>. Any other data is
  converted to a string and parsed: a \<^verbatim>\<open>Blob\<close> becomes the text
  \<^verbatim>\<open>[object Blob]\<close>, on which \<^verbatim>\<open>JSON.parse\<close> raises, as it does on a text
  that is not JSON; \<^verbatim>\<open>null\<close> is logged and then fails the read of its
  \<^verbatim>\<open>type\<close>. An exception leaves the handler uncaught.
\<close>

definition ws_onmessage :: "VoiceBotClient \<Rightarrow> message_data \<Rightarrow> outcome" where
  "ws_onmessage c data =
     (case data of
        ArrayBufferData payload \<Rightarrow> Inr (snd (playAudioResponse_begin c))
      | BlobData payload \<Rightarrow> Inl (JsonSyntaxError, c)
      | TextData InvalidJson \<Rightarrow> Inl (JsonSyntaxError, c)
      | TextData JsonNull \<Rightarrow>
          Inl (NullTypeError, emit c [ConsoleLogMessage ''Control message received:'' None])
      | TextData (JsonValue message) \<Rightarrow> Inr (handleControlMessage c message))"

subsection \<open>The page as a state machine\<close>

text \<open>
  The events of the page. The click handlers are those of \<^verbatim>\<open>initializeUI\<close>: the
  connect button disconnects a connected client and connects any other; a disabled
  mute button delivers no click. \<open>DecodeSettled\<close> and \<open>SourceEnded\<close> are the two
  continuations of \<^verbatim>\<open>playAudioResponse\<close>; \<open>BeforeUnload\<close> runs \<^verbatim>\<open>cleanup\<close>.
  A handler that raises leaves the client as it was when the exception was raised.
\<close>

datatype event =
    ConnectBtnClick connect_env
  | MuteBtnClick
  | SocketClose bool
  | SocketMessage ws_frame
  | DecodeSettled decode_result "string option"
  | SourceEnded
  | TimerFires nat frame bool
  | RenderQuantum "frame list list" "frame list list"
  | BeforeUnload

fun step :: "VoiceBotClient \<Rightarrow> event \<Rightarrow> VoiceBotClient" where
  "step c (ConnectBtnClick env) = (if isConnected c then disconnect c else connect c env)"
| "step c MuteBtnClick = (if muteBtn_disabled c then c else toggleMute c)"
| "step c (SocketClose held) = ws_onclose c held"
| "step c (SocketMessage f) =
     (case ws_onmessage c (inbound f) of Inl (error, c') \<Rightarrow> c' | Inr c' \<Rightarrow> c')"
| "step c (DecodeSettled decoded start_error) = playAudioResponse_resume c decoded start_error"
| "step c SourceEnded = source_onended c"
| "step c (TimerFires timerId mockData chance) = timer_fires c timerId mockData chance"
| "step c (RenderQuantum inputs outputs) = capture c inputs outputs"
| "step c BeforeUnload = cleanup c"

definition run :: "VoiceBotClient \<Rightarrow> event list \<Rightarrow> VoiceBotClient" where
  "run c es = foldl step c es"

subsection \<open>Invariants\<close>

text \<open>
  The processor between two samples: the buffer has the length of a frame and the write
  cursor is inside it.
\<close>

definition accumulating :: "AudioProcessor \<Rightarrow> bool" where
  "accumulating p \<longleftrightarrow> length (buffer p) = frameSize p \<and> bufferIndex p < frameSize p"

text \<open>The effects a step has added to those of the client it started from.\<close>

definition new_effects :: "VoiceBotClient \<Rightarrow> VoiceBotClient \<Rightarrow> effect list" where
  "new_effects c c' = drop (length (effects c)) (effects c')"

text \<open>
  The five resource fields of the client are cleared: every handle is \<^verbatim>\<open>null\<close>, and
  the timer field is \<^verbatim>\<open>null\<close> or 0, the one number that is no timer identifier. This
  is a statement about the fields only, not about the timers of the page or the release
  calls made.
\<close>

definition fields_cleared :: "VoiceBotClient \<Rightarrow> bool" where
  "fields_cleared c \<longleftrightarrow>
     (mockAudioInterval c = None \<or> mockAudioInterval c = Some 0) \<and> ws c = None \<and>
     audioWorkletNode c = None \<and> audioContext c = None \<and> mediaStream c = None"

text \<open>
  One release call for each handle a client holds, in the order of \<^verbatim>\<open>cleanup\<close>:
  \<^verbatim>\<open>close\<close> on the socket, \<^verbatim>\<open>disconnect\<close> on the worklet node, \<^verbatim>\<open>close\<close> on the
  audio context, \<^verbatim>\<open>stop\<close> on every track of the media stream.
\<close>

definition release_effects :: "VoiceBotClient \<Rightarrow> effect list" where
  "release_effects c =
     (case ws c of None \<Rightarrow> [] | Some _ \<Rightarrow> [WsClose]) @
     (case audioWorkletNode c of None \<Rightarrow> [] | Some _ \<Rightarrow> [NodeDisconnect]) @
     (case audioContext c of None \<Rightarrow> [] | Some _ \<Rightarrow> [ContextClose]) @
     (case mediaStream c of None \<Rightarrow> [] | Some tracks \<Rightarrow> replicate tracks TrackStop)"

text \<open>
  The encoder with the rounding of the specification replaced by truncation towards
  zero, and the non-finite samples written out.
\<close>

definition truncating_encode :: "js_number \<Rightarrow> int" where
  "truncating_encode x =
     (case x of
        Num r \<Rightarrow> spec_clamp (js_truncate (r * 32768)) (- 32768) 32767
      | PosInfinity \<Rightarrow> 32767
      | NegInfinity \<Rightarrow> - 32768
      | NaN \<Rightarrow> 0)"

subsection \<open>Scenarios\<close>

text \<open>
  Answers of the platform to a connect attempt: a microphone and a working audio
  stack; no microphone; no microphone and no audio context either. In these three the
  socket opens.
\<close>

definition mic_env :: connect_env where
  "mic_env = \<lparr> getUserMedia = Inr 1, real_AudioContext = None, addModule = None,
       new_AudioWorkletNode = None, connect_graph = None, mock_AudioContext = None,
       websocket = WsOpens \<rparr>"

definition no_mic_env :: connect_env where
  "no_mic_env = \<lparr> getUserMedia = Inl ''Requested device not found'', real_AudioContext = None,
       addModule = None, new_AudioWorkletNode = None, connect_graph = None,
       mock_AudioContext = None, websocket = WsOpens \<rparr>"

definition no_audio_env :: connect_env where
  "no_audio_env = \<lparr> getUserMedia = Inl ''Requested device not found'', real_AudioContext = None,
       addModule = None, new_AudioWorkletNode = None, connect_graph = None,
       mock_AudioContext = Some ''AudioContext is not supported'', websocket = WsOpens \<rparr>"


text \<open>The page once loaded, with the connect button and a disabled mute button.\<close>

definition fresh_page :: VoiceBotClient where
  "fresh_page = page_load BtnConnect True BtnMute"

text \<open>A session on the real capture path that the user muted.\<close>

definition muted_page :: VoiceBotClient where
  "muted_page = toggleMute (connect fresh_page mic_env)"

text \<open>
  A session on the mock source that the user muted and the server then closed: the
  page after \<^verbatim>\<open>connect\<close>, \<^verbatim>\<open>toggleMute\<close> and the \<^verbatim>\<open>onclose\<close> event.
\<close>

definition muted_closed_page :: VoiceBotClient where
  "muted_closed_page = ws_onclose (toggleMute (connect fresh_page no_mic_env)) True"

text \<open>
  The timer table without the timer the client holds in \<^verbatim>\<open>mockAudioInterval\<close>, if it
  holds one: what \<^verbatim>\<open>clearInterval\<close> leaves.
\<close>

definition without_held_timer :: "VoiceBotClient \<Rightarrow> (nat \<times> timer_callback \<times> nat) list" where
  "without_held_timer c =
     (case mockAudioInterval c of
        None \<Rightarrow> intervals c
      | Some t \<Rightarrow> if t \<noteq> 0 then filter (\<lambda>x. fst x \<noteq> t) (intervals c) else intervals c)"


text \<open>
  The ping timer of the page: the timer with identifier 1 is the one timer with the ping
  callback, its period is 30000 ms, and the mock timer the client holds is another one.
\<close>

definition ping_timer_registered :: "VoiceBotClient \<Rightarrow> bool" where
  "ping_timer_registered c \<longleftrightarrow>
     map_of (intervals c) 1 = Some (PingCallback, 30000) \<and>
     filter (\<lambda>x. fst (snd x) = PingCallback) (intervals c) = [(1, PingCallback, 30000)] \<and>
     1 \<le> last_timer_id c \<and>
     mockAudioInterval c \<noteq> Some 1"


section \<open>The frame accumulator: proofs\<close>

lemma accumulating_constructor: "accumulating (constructor opt)"
  by (simp add: accumulating_def constructor_def Let_def split: option.splits)

lemma process_loop_accumulates:
  "accumulating p \<Longrightarrow> process_loop p xs = (p', fs) \<Longrightarrow>
     accumulating p' \<and> frameSize p' = frameSize p \<and>
     (\<forall>f \<in> set fs. length f = frameSize p) \<and>
     concat fs @ take (bufferIndex p') (buffer p') = take (bufferIndex p) (buffer p) @ xs"
proof (induction xs arbitrary: p p' fs)
  case Nil
  then show ?case by simp
next
  case (Cons x xs)
  let ?p2 = "p\<lparr> buffer := (buffer p)[bufferIndex p := x], bufferIndex := bufferIndex p + 1 \<rparr>"
  have tk: "take (Suc (bufferIndex p)) ((buffer p)[bufferIndex p := x]) = take (bufferIndex p) (buffer p) @ [x]"
    using Cons.prems(1) by (simp add: accumulating_def take_Suc_conv_app_nth)
  show ?case
  proof (cases "Suc (bufferIndex p) \<ge> frameSize p")
    case True
    then obtain fs' where run: "process_loop (?p2\<lparr> bufferIndex := 0 \<rparr>) xs = (p', fs')"
      and fs: "fs = buffer ?p2 # fs'"
      using Cons.prems(2) by (auto simp: Let_def sendAudioFrame_def split: prod.splits)
    have i2: "accumulating (?p2\<lparr> bufferIndex := 0 \<rparr>)" using Cons.prems(1) by (simp add: accumulating_def)
    from Cons.IH [OF i2 run] have ih: "accumulating p'" "frameSize p' = frameSize p"
      "\<forall>f \<in> set fs'. length f = frameSize p"
      "concat fs' @ take (bufferIndex p') (buffer p') = xs" by simp_all
    have full: "Suc (bufferIndex p) = frameSize p" using True Cons.prems(1) by (simp add: accumulating_def)
    have "(buffer p)[bufferIndex p := x] = take (bufferIndex p) (buffer p) @ [x]"
      using tk full Cons.prems(1) by (simp add: accumulating_def)
    with ih fs full Cons.prems(1) show ?thesis by (simp add: accumulating_def)
  next
    case False
    then have run: "process_loop ?p2 xs = (p', fs)"
      using Cons.prems(2) by (simp add: Let_def)
    have i2: "accumulating ?p2" using Cons.prems(1) False by (simp add: accumulating_def)
    from Cons.IH [OF i2 run] tk show ?thesis by simp
  qed
qed

lemma process_well_formed:
  "well_formed (inputs, outputs) \<Longrightarrow>
     \<exists>outs. process p inputs outputs = Inr (fst (process_loop p (delivered (inputs, outputs))), outs,
                                     snd (process_loop p (delivered (inputs, outputs))))"
  by (cases "(inputs, outputs)" rule: well_formed.cases)
     (auto simp: process_def Let_def split: prod.splits)

lemma run_process_accumulates:
  "accumulating p \<Longrightarrow> \<forall>d \<in> set ds. well_formed d \<Longrightarrow>
     \<exists>p' frames. run_process p ds = Inr (p', frames) \<and>
       accumulating p' \<and> frameSize p' = frameSize p \<and>
       (\<forall>f \<in> set frames. length f = frameSize p) \<and>
       concat frames @ take (bufferIndex p') (buffer p')
         = take (bufferIndex p) (buffer p) @ concat (map delivered ds)"
proof (induction ds arbitrary: p)
  case Nil
  then show ?case by simp
next
  case (Cons d ds)
  obtain inputs outputs where d: "d = (inputs, outputs)" by (cases d)
  obtain p1 fs1 where loop: "process_loop p (delivered d) = (p1, fs1)" by (cases "process_loop p (delivered d)")
  from Cons.prems(2) d have "well_formed (inputs, outputs)" by simp
  from process_well_formed [OF this, of p] loop d
  obtain outs where pr: "process p inputs outputs = Inr (p1, outs, fs1)" by auto
  from process_loop_accumulates [OF Cons.prems(1) loop]
  have a1: "accumulating p1" "frameSize p1 = frameSize p" "\<forall>f \<in> set fs1. length f = frameSize p"
    "concat fs1 @ take (bufferIndex p1) (buffer p1) = take (bufferIndex p) (buffer p) @ delivered d"
    by simp_all
  from Cons.IH [OF a1(1)] Cons.prems(2)
  obtain p' frames where rest: "run_process p1 ds = Inr (p', frames)" "accumulating p'"
    "frameSize p' = frameSize p1" "\<forall>f \<in> set frames. length f = frameSize p1"
    "concat frames @ take (bufferIndex p') (buffer p') = take (bufferIndex p1) (buffer p1) @ concat (map delivered ds)"
    by auto
  have "run_process p (d # ds) = Inr (p', fs1 @ frames)"
    using d pr rest(1) by simp
  moreover have "concat (fs1 @ frames) @ take (bufferIndex p') (buffer p')
      = take (bufferIndex p) (buffer p) @ concat (map delivered (d # ds))"
  proof -
    have "concat (fs1 @ frames) @ take (bufferIndex p') (buffer p')
        = concat fs1 @ (concat frames @ take (bufferIndex p') (buffer p'))" by simp
    also have "\<dots> = (concat fs1 @ take (bufferIndex p1) (buffer p1)) @ concat (map delivered ds)"
      by (simp only: rest(5) append_assoc)
    also have "\<dots> = (take (bufferIndex p) (buffer p) @ delivered d) @ concat (map delivered ds)"
      by (simp only: a1(4))
    finally show ?thesis by simp
  qed
  ultimately show ?case using rest a1 by auto
qed

lemma length_concat_uniform:
  "\<forall>f \<in> set fs. length f = n \<Longrightarrow> length (concat fs) = length fs * n"
  by (induction fs) auto

text \<open>
  C1. Whatever the sizes of the chunks the audio engine delivers, the processor posts
  \<open>total div frameSize\<close> frames, each of \<open>frameSize\<close> samples, and the frames
  in sequence are the first \<open>total div frameSize * frameSize\<close> samples delivered, in
  order of arrival. The frame size is 320 by default and as the client configures it.
\<close>

theorem frame_accumulator_emits_prefix:
  assumes wf: "\<forall>d \<in> set ds. well_formed d"
  shows "\<exists>p' frames. run_process (constructor opt) ds = Inr (p', frames) \<and>
           length frames = length (concat (map delivered ds)) div frameSize (constructor opt) \<and>
           (\<forall>f \<in> set frames. length f = frameSize (constructor opt)) \<and>
           concat frames =
             take (length (concat (map delivered ds)) div frameSize (constructor opt)
                     * frameSize (constructor opt))
               (concat (map delivered ds)) \<and>
           frameSize (constructor None) = 320 \<and>
           frameSize (constructor (Some 320)) = 320"
proof -
  let ?p = "constructor opt" and ?s = "concat (map delivered ds)"
  from run_process_accumulates [OF accumulating_constructor wf, of opt]
  obtain p' frames where r: "run_process ?p ds = Inr (p', frames)" "accumulating p'"
    "frameSize p' = frameSize ?p" "\<forall>f \<in> set frames. length f = frameSize ?p"
    "concat frames @ take (bufferIndex p') (buffer p') = take (bufferIndex ?p) (buffer ?p) @ ?s"
    by blast
  have z: "bufferIndex ?p = 0" by (simp add: constructor_def Let_def)
  have split: "concat frames @ take (bufferIndex p') (buffer p') = ?s" using r(5) z by simp
  have lc: "length (concat frames) = length frames * frameSize ?p"
    using r(4) by (rule length_concat_uniform)
  have k: "bufferIndex p' < frameSize ?p" "length (take (bufferIndex p') (buffer p')) = bufferIndex p'"
    using r(2,3) by (simp_all add: accumulating_def)
  have "length ?s = length frames * frameSize ?p + bufferIndex p'"
    using split lc k(2) by (metis length_append)
  then have n: "length ?s div frameSize ?p = length frames" using k(1) by simp
  have "take (length (concat frames)) ?s = concat frames"
    using split by (metis append_eq_conv_conj)
  then have "concat frames = take (length ?s div frameSize ?p * frameSize ?p) ?s"
    using n lc by simp
  moreover have "frameSize (constructor None) = 320" "frameSize (constructor (Some 320)) = 320"
    by (simp_all add: constructor_def)
  ultimately show ?thesis using r(1,4) n by auto
qed

theorem frame_accumulator_emits_prefix_witness:
  "well_formed ([[[Num 1]]], [[[Num 0]]]) \<and>
   well_formed ([[[Num 2, Num 3, Num 4, Num 5]]], [[]]) \<and>
   well_formed ([[]], []) \<and>
   (\<exists>p'. run_process (constructor (Some 2))
            [([[[Num 1]]], [[[Num 0]]]), ([[[Num 2, Num 3, Num 4, Num 5]]], [[]]), ([[]], [])]
          = Inr (p', [[Num 1, Num 2], [Num 3, Num 4]]))"
  using frame_accumulator_emits_prefix
    [of "[([[[Num 1]]], [[[Num 0]]]), ([[[Num 2, Num 3, Num 4, Num 5]]], [[]]), ([[]], [])]" "Some 2"]
  by (simp add: constructor_def process_def sendAudioFrame_def eval_nat_numeral)

section \<open>The encoder: proofs\<close>

lemma sint_int16: "- 32768 \<le> k \<Longrightarrow> k \<le> 32767 \<Longrightarrow> sint (word_of_int k :: 16 word) = k"
  by (simp add: sint_sbintrunc' signed_take_bit_int_eq_self)

lemma js_truncate_clamp:
  "js_truncate (max (- 32768) (min 32767 y)) = spec_clamp (js_truncate y) (- 32768) 32767"
proof -
  consider "y \<ge> 32767" | "y \<le> - 32768" | "- 32768 < y" "y < 32767" by linarith
  then show ?thesis
  proof cases
    case 1
    then have "\<lfloor>y\<rfloor> \<ge> 32767" by linarith
    with 1 show ?thesis by (simp add: js_truncate_def spec_clamp_def)
  next
    case 2
    then have "\<lceil>y\<rceil> \<le> - 32768" by linarith
    with 2 show ?thesis by (simp add: js_truncate_def spec_clamp_def)
  next
    case 3
    then have "\<lfloor>y\<rfloor> \<ge> - 32768" "\<lfloor>y\<rfloor> < 32767" "\<lceil>y\<rceil> > - 32768" "\<lceil>y\<rceil> \<le> 32767" by linarith+
    with 3 show ?thesis by (simp add: js_truncate_def spec_clamp_def)
  qed
qed

lemma spec_clamp_range: "- 32768 \<le> spec_clamp k (- 32768) 32767 \<and> spec_clamp k (- 32768) 32767 \<le> 32767"
  by (simp add: spec_clamp_def)

lemma sint_encode_sample: "sint (encode_sample x) = truncating_encode x"
proof (cases x)
  case (Num r)
  have "sint (encode_sample (Num r)) = sint (word_of_int (spec_clamp (js_truncate (r * 32768)) (- 32768) 32767) :: 16 word)"
    by (simp add: encode_sample_def js_truncate_clamp)
  also have "\<dots> = spec_clamp (js_truncate (r * 32768)) (- 32768) 32767"
    using spec_clamp_range by (intro sint_int16) simp_all
  finally show ?thesis using Num by (simp add: truncating_encode_def)
qed (simp_all add: encode_sample_def truncating_encode_def js_truncate_def)

text \<open>
  C2, as stated, fails: the sample \<open>3 / 131072\<close> (a binary32 value) scales to
  \<open>0.75\<close>, which rounds to 1, but the encoder stores 0.
\<close>

theorem encoder_rounds_counterexample:
  "sint (encode_sample (Num (3 / 131072))) \<noteq> spec_encode (3 / 131072)"
  by (simp add: encode_sample_def js_truncate_def spec_encode_def spec_clamp_def round_def)

text \<open>
  C2, amended. The encoder computes, elementwise and in order, the clamp to
  \<open>[-32768, 32767]\<close> of the sample scaled by 32768 and truncated towards zero (NaN
  gives 0); 1.5 gives 32767, -1.5 gives -32768, 0 gives 0; the payload has the length
  of the frame, and it is what an open socket is sent.
\<close>

theorem encoder_truncates_and_clamps:
  "map sint (encode_frame audioData) = map truncating_encode audioData \<and>
   length (encode_frame audioData) = length audioData \<and>
   sint (encode_sample (Num 1.5)) = 32767 \<and>
   sint (encode_sample (Num (- 1.5))) = - 32768 \<and>
   sint (encode_sample (Num 0)) = 0 \<and>
   sendAudioData (c\<lparr> ws := Some OPEN \<rparr>) audioData
     = emit (c\<lparr> ws := Some OPEN \<rparr>) [WsSendBinary (encode_frame audioData)]"
  by (simp add: encode_frame_def sint_encode_sample sendAudioData_def truncating_encode_def
        spec_clamp_def js_truncate_def)

section \<open>The client: proofs\<close>

lemma cleanup_eq:
  "cleanup c =
     c\<lparr> ws := None, audioContext := None, mediaStream := None, audioWorkletNode := None,
        isConnected := False, isMuted := False,
        mockAudioInterval := (case mockAudioInterval c of
                                None \<Rightarrow> None
                              | Some t \<Rightarrow> if t \<noteq> 0 then None else Some t),
        connectBtn_textContent := BtnConnect, muteBtn_disabled := True,
        muteBtn_textContent := BtnMute,
        intervals := (case mockAudioInterval c of
                        None \<Rightarrow> intervals c
                      | Some t \<Rightarrow> if t \<noteq> 0 then filter (\<lambda>x. fst x \<noteq> t) (intervals c)
                                  else intervals c),
        effects := effects c @ release_effects c \<rparr>"
  by (simp add: cleanup_def release_effects_def emit_def clearInterval_def Let_def
        split: option.splits)

lemma fresh_page_eq:
  "fresh_page =
     \<lparr> ws = None, audioContext = None, mediaStream = None, audioWorkletNode = None,
       isConnected = False, isMuted = False, isListening = False, isSpeaking = False,
       mockAudioInterval = None,
       status_className = Disconnected, status_textContent = TxtWaiting,
       connectBtn_textContent = BtnConnect,
       muteBtn_disabled = True, muteBtn_textContent = BtnMute,
       intervals = [(1, PingCallback, 30000)], last_timer_id = 1, effects = [] \<rparr>"
  by (simp add: fresh_page_def page_load_def startPingInterval_def setInterval_def
        new_VoiceBotClient_def Let_def)

lemma connect_no_mic:
  "connect fresh_page no_mic_env =
     \<lparr> ws = Some OPEN, audioContext = Some 16000, mediaStream = None, audioWorkletNode = None,
       isConnected = True, isMuted = False, isListening = False, isSpeaking = False,
       mockAudioInterval = Some 2,
       status_className = Connected, status_textContent = TxtConnected,
       connectBtn_textContent = BtnDisconnect,
       muteBtn_disabled = False, muteBtn_textContent = BtnMute,
       intervals = [(1, PingCallback, 30000), (2, MockAudioCallback, 20)], last_timer_id = 2,
       effects =
         [ConsoleWarn ''Real microphone not available, using mock audio:''
            (PlatformError ''Requested device not found''),
          ConsoleLog ''Mock audio mode: simulating audio input for testing'',
          WebSocketNew, ConsoleLog ''WebSocket connected'',
          WsSendText (ControlMessage ''ready'' None)] \<rparr>"
  by (simp add: fresh_page_eq no_mic_env_def connect_def updateStatus_def initializeAudio_def
        setupMockAudio_def emit_def setInterval_def connectWebSocket_def sendControlMessage_def
        sampleRate_def Let_def)

lemma fields_cleared_cleanup: "fields_cleared (cleanup c)"
  by (simp add: cleanup_eq fields_cleared_def split: option.splits)

lemma muted_closed_page_eq:
  "muted_closed_page =
     \<lparr> ws = Some CLOSED, audioContext = Some 16000, mediaStream = None, audioWorkletNode = None,
       isConnected = False, isMuted = True, isListening = False, isSpeaking = False,
       mockAudioInterval = Some 2,
       status_className = Disconnected, status_textContent = TxtClosed,
       connectBtn_textContent = BtnConnect,
       muteBtn_disabled = True, muteBtn_textContent = BtnUnmute,
       intervals = [(1, PingCallback, 30000), (2, MockAudioCallback, 20)], last_timer_id = 2,
       effects =
         [ConsoleWarn ''Real microphone not available, using mock audio:''
            (PlatformError ''Requested device not found''),
          ConsoleLog ''Mock audio mode: simulating audio input for testing'',
          WebSocketNew, ConsoleLog ''WebSocket connected'',
          WsSendText (ControlMessage ''ready'' None),
          ConsoleLog ''WebSocket disconnected''] \<rparr>"
  by (simp add: muted_closed_page_def connect_no_mic toggleMute_def ws_onclose_def
        updateStatus_def emit_def Let_def)

lemma map_of_filter_fst: "map_of (filter (\<lambda>x. fst x \<noteq> t) xs) t = None"
  by (induction xs) auto

lemma quiet_after_cleanup: "timer_fires (cleanup c) i mockData chance = cleanup c"
proof -
  have "\<not> isConnected (cleanup c)" by (simp add: cleanup_eq)
  then have "mock_callback (cleanup c) mockData chance = cleanup c" "ping_callback (cleanup c) = cleanup c"
    by (simp_all add: mock_callback_def ping_callback_def)
  then show ?thesis
    by (simp add: timer_fires_def split: option.splits timer_callback.splits)
qed

text \<open>
  C7. A send while the socket is missing or not open changes nothing: no effect is
  added (nothing is transmitted, nothing is logged) and no field is written.
\<close>

theorem send_while_not_open_is_noop:
  "ws c \<noteq> Some OPEN \<Longrightarrow> sendAudioData c audioData = c \<and> sendControlMessage c message = c"
  by (auto simp: sendAudioData_def sendControlMessage_def split: option.splits ready_state.splits)

theorem send_while_not_open_is_noop_witness:
  "ws (cleanup (connect fresh_page mic_env)) \<noteq> Some OPEN \<and>
   sendAudioData (cleanup (connect fresh_page mic_env)) [Num 0] = cleanup (connect fresh_page mic_env) \<and>
   sendControlMessage (cleanup (connect fresh_page mic_env)) (ControlMessage ''ping'' None)
     = cleanup (connect fresh_page mic_env)"
proof -
  have h: "ws (cleanup (connect fresh_page mic_env)) \<noteq> Some OPEN"
    by (simp add: cleanup_eq)
  from send_while_not_open_is_noop [OF h] h show ?thesis by simp
qed

text \<open>
  C5, as stated, fails: after \<^verbatim>\<open>cleanup\<close> of a connected session the ping timer of
  the page is still registered, and the status is still \<^verbatim>\<open>connected\<close>.
\<close>

theorem cleanup_end_state_counterexample:
  "fields_cleared (cleanup (connect fresh_page no_mic_env)) \<and>
   map_of (intervals (cleanup (connect fresh_page no_mic_env))) 1 = Some (PingCallback, 30000) \<and>
   status_className (cleanup (connect fresh_page no_mic_env)) = Connected"
  by (simp add: connect_no_mic cleanup_eq fields_cleared_def)

text \<open>
  C5, amended. A second \<^verbatim>\<open>cleanup\<close> (or \<^verbatim>\<open>disconnect\<close>) leaves the client exactly as
  the first left it, effects included: it makes no release call at all, and neither
  function has a raising branch. The first call makes one release call for each handle
  the client holds, removes the mock timer it holds from the timers of the page and
  clears the five fields; the client is not connected then. \<^verbatim>\<open>disconnect\<close> sets the
  status to \<^verbatim>\<open>disconnected\<close>; \<^verbatim>\<open>cleanup\<close> leaves the status as it is.
\<close>

theorem cleanup_twice_is_cleanup_once:
  "cleanup (cleanup c) = cleanup c \<and>
   disconnect (disconnect c) = disconnect c \<and>
   new_effects (cleanup c) (cleanup (cleanup c)) = [] \<and>
   new_effects (disconnect c) (disconnect (disconnect c)) = [] \<and>
   new_effects c (cleanup c) = release_effects c \<and>
   new_effects c (disconnect c) = release_effects c \<and>
   intervals (cleanup c) = without_held_timer c \<and>
   intervals (disconnect c) = without_held_timer c \<and>
   fields_cleared (cleanup c) \<and> \<not> isConnected (cleanup c) \<and>
   fields_cleared (disconnect c) \<and> \<not> isConnected (disconnect c) \<and>
   status_className (cleanup c) = status_className c \<and>
   status_className (disconnect c) = Disconnected"
proof -
  have 1: "cleanup (cleanup c) = cleanup c"
    by (cases "mockAudioInterval c") (simp_all add: cleanup_eq release_effects_def)
  have 2: "cleanup (updateStatus c' t m) = updateStatus (cleanup c') t m" for c' t m
    by (simp add: cleanup_eq updateStatus_def release_effects_def split: option.splits)
  have 3: "disconnect (disconnect c) = disconnect c"
    by (simp add: disconnect_def 2 1) (simp add: updateStatus_def)
  have 4: "fields_cleared (disconnect c)"
    using fields_cleared_cleanup [of c] by (simp add: disconnect_def fields_cleared_def updateStatus_def)
  have 5: "new_effects c (cleanup c) = release_effects c" "intervals (cleanup c) = without_held_timer c"
    "status_className (cleanup c) = status_className c" "\<not> isConnected (cleanup c)"
    by (simp_all add: cleanup_eq new_effects_def without_held_timer_def)
  have 6: "new_effects c (disconnect c) = release_effects c"
    "intervals (disconnect c) = without_held_timer c"
    "\<not> isConnected (disconnect c)" "status_className (disconnect c) = Disconnected"
    using 5 by (simp_all add: disconnect_def updateStatus_def new_effects_def)
  show ?thesis
    using 4 5 6 by (simp add: 1 3 new_effects_def fields_cleared_cleanup)
qed

text \<open>
  C9, as stated, fails: after a session on the mock source is cleaned up, the ping
  timer of the page is still registered.
\<close>

theorem ping_timer_not_cancelled_counterexample:
  "map_of (intervals (cleanup (connect fresh_page no_mic_env))) 1 = Some (PingCallback, 30000)"
  by (simp add: connect_no_mic cleanup_eq)

text \<open>
  C9, amended. \<^verbatim>\<open>cleanup\<close> cancels the mock timer the client holds, and only that
  timer: the field is cleared, the timer is no longer registered, every other timer of
  the page (the ping timer among them) stays. Any timer that fires after
  \<^verbatim>\<open>cleanup\<close> finds the client not connected and does nothing.
\<close>

theorem cleanup_cancels_mock_timer:
  assumes "mockAudioInterval c = Some t" and "t \<noteq> 0"
  shows "mockAudioInterval (cleanup c) = None \<and>
         intervals (cleanup c) = filter (\<lambda>x. fst x \<noteq> t) (intervals c) \<and>
         map_of (intervals (cleanup c)) t = None \<and>
         timer_fires (cleanup c) i mockData chance = cleanup c"
  using assms by (simp add: quiet_after_cleanup) (simp add: cleanup_eq map_of_filter_fst)

theorem cleanup_cancels_mock_timer_witness:
  "mockAudioInterval (connect fresh_page no_mic_env) = Some 2 \<and> (2::nat) \<noteq> 0 \<and>
   mockAudioInterval (cleanup (connect fresh_page no_mic_env)) = None \<and>
   intervals (cleanup (connect fresh_page no_mic_env)) = [(1, PingCallback, 30000)] \<and>
   map_of (intervals (cleanup (connect fresh_page no_mic_env))) 2 = None \<and>
   timer_fires (cleanup (connect fresh_page no_mic_env)) 1 [] False
     = cleanup (connect fresh_page no_mic_env)"
proof -
  have h: "mockAudioInterval (connect fresh_page no_mic_env) = Some 2" "(2::nat) \<noteq> 0"
    by (simp_all add: connect_no_mic)
  have i: "intervals (connect fresh_page no_mic_env) = [(1, PingCallback, 30000), (2, MockAudioCallback, 20)]"
    by (simp add: connect_no_mic)
  from cleanup_cancels_mock_timer [OF h, of 1 "[]" False] h i show ?thesis by simp
qed


lemma connect_mock_fails:
  assumes "getUserMedia env = Inl m" "mock_AudioContext env = Some m'"
  shows "connect c env =
           connect_catch
             (emit (updateStatus c Connecting TxtConnecting)
                [ConsoleWarn ''Real microphone not available, using mock audio:'' (PlatformError m)])
             (AudioInitError (PlatformError m'))"
  using assms by (simp add: connect_def initializeAudio_def setupMockAudio_def Let_def)






lemma setupRealAudio_isMuted:
  "setupRealAudio c env = Inr c' \<or> setupRealAudio c env = Inl (e, c') \<Longrightarrow> isMuted c' = isMuted c"
  by (auto simp: setupRealAudio_def Let_def split: option.splits)

lemma setupMockAudio_isMuted:
  "setupMockAudio c env = Inr c' \<or> setupMockAudio c env = Inl (e, c') \<Longrightarrow> isMuted c' = isMuted c"
  by (auto simp: setupMockAudio_def setInterval_def emit_def Let_def split: option.splits)

lemma initializeAudio_isMuted:
  "initializeAudio c env = Inr c' \<Longrightarrow> isMuted c' = isMuted c"
  by (auto simp: initializeAudio_def Let_def emit_def split: sum.splits prod.splits
       dest!: setupRealAudio_isMuted [OF disjI1] setupRealAudio_isMuted [OF disjI2]
              setupMockAudio_isMuted [OF disjI1])

lemma connectWebSocket_isMuted:
  "connectWebSocket c env = Inr c' \<Longrightarrow> isMuted c' = isMuted c"
  by (auto simp: connectWebSocket_def Let_def emit_def sendControlMessage_def split: ws_outcome.splits)

lemma connect_cases:
  "(isConnected (connect c env) \<and> isMuted (connect c env) = isMuted c) \<or>
   (\<exists>c' e. connect c env = connect_catch c' e)"
  by (auto simp: connect_def Let_def updateStatus_def split: sum.splits
       dest!: initializeAudio_isMuted connectWebSocket_isMuted)

text \<open>
  C10, as stated, fails: a muted session closed by the server is in the state
  \<^verbatim>\<open>disconnected\<close> with the mute flag still set, and the session the next
  \<^verbatim>\<open>connect\<close> starts is muted.
\<close>

theorem next_session_unmuted_counterexample:
  "status_className muted_closed_page = Disconnected \<and>
   \<not> isConnected muted_closed_page \<and>
   isConnected (connect muted_closed_page no_mic_env) \<and>
   isMuted (connect muted_closed_page no_mic_env)"
  by (simp add: muted_closed_page_eq no_mic_env_def connect_def updateStatus_def
        initializeAudio_def setupMockAudio_def emit_def setInterval_def connectWebSocket_def
        sendControlMessage_def sampleRate_def Let_def)

text \<open>
  C10, amended. Every \<^verbatim>\<open>cleanup\<close> resets the mute flag and the label of the mute
  button, and so does every teardown that runs it: \<^verbatim>\<open>disconnect\<close> and a failed
  \<^verbatim>\<open>connect\<close>. The session started after such a teardown is unmuted.
\<close>

theorem cleanup_resets_mute:
  "isMuted (cleanup c) = False \<and> muteBtn_textContent (cleanup c) = BtnMute \<and>
   isMuted (disconnect c) = False \<and> muteBtn_textContent (disconnect c) = BtnMute \<and>
   (\<not> isConnected (connect c env) \<longrightarrow>
      isMuted (connect c env) = False \<and> muteBtn_textContent (connect c env) = BtnMute) \<and>
   isMuted (connect (cleanup c) env') = False \<and>
   isMuted (connect (disconnect c) env') = False"
proof -
  have a: "isMuted (cleanup c') = False" "muteBtn_textContent (cleanup c') = BtnMute"
    "isConnected (cleanup c') = False" for c'
    by (simp_all add: cleanup_eq)
  have b: "isMuted (disconnect c) = False" "muteBtn_textContent (disconnect c) = BtnMute"
    by (simp_all add: disconnect_def updateStatus_def a)
  have c: "isMuted c' = False \<Longrightarrow> isMuted (connect c' e') = False" for c' e'
    using connect_cases [of c' e'] by (auto simp: connect_catch_def a)
  have d: "\<not> isConnected (connect c env) \<longrightarrow>
      isMuted (connect c env) = False \<and> muteBtn_textContent (connect c env) = BtnMute"
    using connect_cases [of c env] by (auto simp: connect_catch_def a)
  show ?thesis using a b c d by simp
qed

theorem cleanup_resets_mute_witness:
  "\<not> isConnected (connect muted_closed_page no_audio_env) \<and>
   isMuted muted_closed_page \<and>
   isMuted (connect muted_closed_page no_audio_env) = False \<and>
   muteBtn_textContent (connect muted_closed_page no_audio_env) = BtnMute"
proof -
  have "connect muted_closed_page no_audio_env =
          connect_catch
             (emit (updateStatus muted_closed_page Connecting TxtConnecting)
                [ConsoleWarn ''Real microphone not available, using mock audio:''
                   (PlatformError ''Requested device not found'')])
             (AudioInitError (PlatformError ''AudioContext is not supported''))"
    by (rule connect_mock_fails) (simp_all add: no_audio_env_def)
  then have h: "\<not> isConnected (connect muted_closed_page no_audio_env)"
    by (simp add: connect_catch_def cleanup_eq)
  have m: "isMuted muted_closed_page" by (simp add: muted_closed_page_eq)
  from cleanup_resets_mute [where c = muted_closed_page and env = no_audio_env] h m
  show ?thesis by simp
qed

lemma port_onmessage_muted: "isMuted c \<Longrightarrow> port_onmessage c type data = c"
  by (simp add: port_onmessage_def)

lemma foldl_port_onmessage_muted:
  "isMuted c \<Longrightarrow> foldl (\<lambda>c' f. port_onmessage c' type f) c frames = c"
  by (induction frames) (simp_all add: port_onmessage_muted)

lemma connect_mic:
  "connect fresh_page mic_env =
     \<lparr> ws = Some OPEN, audioContext = Some 16000, mediaStream = Some 1,
       audioWorkletNode = Some (constructor (Some 320)),
       isConnected = True, isMuted = False, isListening = False, isSpeaking = False,
       mockAudioInterval = None,
       status_className = Connected, status_textContent = TxtConnected,
       connectBtn_textContent = BtnDisconnect,
       muteBtn_disabled = False, muteBtn_textContent = BtnMute,
       intervals = [(1, PingCallback, 30000)], last_timer_id = 1,
       effects =
         [ConsoleLog ''Real microphone initialized'', WebSocketNew,
          ConsoleLog ''WebSocket connected'', WsSendText (ControlMessage ''ready'' None)] \<rparr>"
  by (simp add: fresh_page_eq mic_env_def connect_def updateStatus_def initializeAudio_def
        setupRealAudio_def emit_def connectWebSocket_def sendControlMessage_def
        sampleRate_def client_frameSize_def Let_def)

lemma muted_page_eq:
  "muted_page =
     \<lparr> ws = Some OPEN, audioContext = Some 16000, mediaStream = Some 1,
       audioWorkletNode = Some (constructor (Some 320)),
       isConnected = True, isMuted = True, isListening = False, isSpeaking = False,
       mockAudioInterval = None,
       status_className = Connected, status_textContent = TxtMuted,
       connectBtn_textContent = BtnDisconnect,
       muteBtn_disabled = False, muteBtn_textContent = BtnUnmute,
       intervals = [(1, PingCallback, 30000)], last_timer_id = 1,
       effects =
         [ConsoleLog ''Real microphone initialized'', WebSocketNew,
          ConsoleLog ''WebSocket connected'', WsSendText (ControlMessage ''ready'' None)] \<rparr>"
  by (simp add: muted_page_def connect_mic toggleMute_def updateStatus_def Let_def)

text \<open>
  C3, as stated, fails: in a muted session a frame posted by the worklet, or a tick of
  the mock timer, is not passed to the visualizer.
\<close>

theorem muted_frames_not_visualized_counterexample:
  "isMuted muted_page \<and>
   Visualize [Num 0] \<notin> set (effects (port_onmessage muted_page ''audioData'' [Num 0])) \<and>
   Visualize [Num 0] \<notin> set (effects (mock_callback muted_page [Num 0] True))"
  by (simp add: muted_page_eq port_onmessage_def mock_callback_def)

text \<open>
  C3, amended. While the session is muted nothing is sent on the socket, and nothing is
  visualized either: the handler of the worklet's frames and the callback of the mock
  timer both leave the client as it is. On the real capture path the worklet keeps
  accumulating, and the frames it posts are dropped; the mock source generates no frame.
\<close>

theorem muted_frames_dropped:
  assumes "isMuted c"
  shows "port_onmessage c type data = c \<and>
         mock_callback c mockData chance = c \<and>
         (audioWorkletNode c = Some p \<and> process p inputs outputs = Inr (p', outs, frames)
            \<longrightarrow> capture c inputs outputs = c\<lparr> audioWorkletNode := Some p' \<rparr>)"
  using assms
  by (auto simp: port_onmessage_muted mock_callback_def capture_def foldl_port_onmessage_muted)

theorem muted_frames_dropped_witness:
  "isMuted (muted_page\<lparr> audioWorkletNode := Some (constructor (Some 2)) \<rparr>) \<and>
   process (constructor (Some 2)) [[[Num 1, Num 2, Num 3]]] [[]]
     = Inr (\<lparr> frameSize = 2, buffer = [Num 3, Num 2], bufferIndex = 1 \<rparr>, [[]], [[Num 1, Num 2]]) \<and>
   capture (muted_page\<lparr> audioWorkletNode := Some (constructor (Some 2)) \<rparr>)
       [[[Num 1, Num 2, Num 3]]] [[]]
     = muted_page\<lparr> audioWorkletNode :=
         Some \<lparr> frameSize = 2, buffer = [Num 3, Num 2], bufferIndex = 1 \<rparr> \<rparr> \<and>
   port_onmessage (muted_page\<lparr> audioWorkletNode := Some (constructor (Some 2)) \<rparr>)
       ''audioData'' [Num 1, Num 2]
     = muted_page\<lparr> audioWorkletNode := Some (constructor (Some 2)) \<rparr>"
proof -
  let ?c = "muted_page\<lparr> audioWorkletNode := Some (constructor (Some 2)) \<rparr>"
  have m: "isMuted ?c" by (simp add: muted_page_eq)
  have p: "process (constructor (Some 2)) [[[Num 1, Num 2, Num 3]]] [[]]
     = Inr (\<lparr> frameSize = 2, buffer = [Num 3, Num 2], bufferIndex = 1 \<rparr>, [[]], [[Num 1, Num 2]])"
    by (simp add: process_def constructor_def sendAudioFrame_def eval_nat_numeral)
  from muted_frames_dropped [OF m, where type = "''audioData''" and data = "[Num 1, Num 2]"
      and p = "constructor (Some 2)" and inputs = "[[[Num 1, Num 2, Num 3]]]" and outputs = "[[]]"
      and p' = "\<lparr> frameSize = 2, buffer = [Num 3, Num 2], bufferIndex = 1 \<rparr>"
      and outs = "[[]]" and frames = "[[Num 1, Num 2]]"] m p
  show ?thesis by simp
qed

section \<open>The heartbeat: proofs\<close>

lemma ping_timer_registered_cong:
  "intervals c' = intervals c \<Longrightarrow> last_timer_id c' = last_timer_id c \<Longrightarrow>
   mockAudioInterval c' = mockAudioInterval c \<Longrightarrow>
   ping_timer_registered c' = ping_timer_registered c"
  by (simp add: ping_timer_registered_def)

lemma map_of_filter_other:
  "t \<noteq> k \<Longrightarrow> map_of (filter (\<lambda>x. fst x \<noteq> t) xs) k = map_of xs k"
  by (induction xs) auto

lemma filter_ping_without:
  assumes "t \<noteq> k" and "filter P xs = [(k, v)]"
  shows "filter (\<lambda>x. fst x \<noteq> t \<and> P x) xs = [(k, v)]"
proof -
  have "filter (\<lambda>x. fst x \<noteq> t \<and> P x) xs = filter (\<lambda>x. fst x \<noteq> t) (filter P xs)"
    by (simp add: conj_commute)
  then show ?thesis using assms by simp
qed

lemma ping_timer_registered_cleanup:
  "ping_timer_registered c \<Longrightarrow> ping_timer_registered (cleanup c)"
  by (cases "mockAudioInterval c")
     (auto simp: ping_timer_registered_def cleanup_eq map_of_filter_other filter_ping_without)

lemma ping_timer_registered_setupMockAudio:
  "ping_timer_registered c \<Longrightarrow>
   setupMockAudio c env = Inr c' \<or> setupMockAudio c env = Inl (e, c') \<Longrightarrow>
   ping_timer_registered c'"
  by (auto simp: setupMockAudio_def setInterval_def emit_def Let_def ping_timer_registered_def
        split: option.splits)

lemma ping_timer_registered_setupRealAudio:
  "ping_timer_registered c \<Longrightarrow>
   setupRealAudio c env = Inr c' \<or> setupRealAudio c env = Inl (e, c') \<Longrightarrow>
   ping_timer_registered c'"
  by (auto simp: setupRealAudio_def Let_def ping_timer_registered_def split: option.splits)

lemma ping_timer_registered_emit [simp]:
  "ping_timer_registered (emit c es) = ping_timer_registered c"
  by (simp add: emit_def ping_timer_registered_def)

lemma ping_timer_registered_updateStatus [simp]:
  "ping_timer_registered (updateStatus c t m) = ping_timer_registered c"
  by (simp add: updateStatus_def ping_timer_registered_def)

lemma ping_timer_registered_initializeAudio:
  assumes "ping_timer_registered c"
    and "initializeAudio c env = Inr c' \<or> initializeAudio c env = Inl (e, c')"
  shows "ping_timer_registered c'"
proof (cases "getUserMedia env")
  case (Inl m)
  let ?c1 = "emit c [ConsoleWarn ''Real microphone not available, using mock audio:'' (PlatformError m)]"
  have "ping_timer_registered ?c1" using assms(1) by simp
  moreover have "(\<exists>e'. setupMockAudio ?c1 env = Inl (e', c')) \<or> setupMockAudio ?c1 env = Inr c'"
    using assms(2) Inl by (auto simp: initializeAudio_def Let_def split: sum.splits)
  ultimately show ?thesis using ping_timer_registered_setupMockAudio by blast
next
  case (Inr tracks)
  let ?c0 = "emit (c\<lparr> mediaStream := Some tracks \<rparr>) [ConsoleLog ''Real microphone initialized'']"
  have r0: "ping_timer_registered ?c0"
    using assms(1) by (simp add: ping_timer_registered_def emit_def)
  show ?thesis
  proof (cases "setupRealAudio ?c0 env")
    case (Inr c1)
    then have "c' = c1" using assms(2) \<open>getUserMedia env = Inr tracks\<close>
      by (auto simp: initializeAudio_def Let_def)
    with Inr r0 ping_timer_registered_setupRealAudio show ?thesis by blast
  next
    case (Inl p)
    obtain micError c1 where p: "p = (micError, c1)" by (cases p)
    let ?c2 = "emit c1 [ConsoleWarn ''Real microphone not available, using mock audio:'' micError]"
    have "ping_timer_registered c1"
      using Inl p r0 ping_timer_registered_setupRealAudio by blast
    then have "ping_timer_registered ?c2" by simp
    moreover have "(\<exists>e'. setupMockAudio ?c2 env = Inl (e', c')) \<or> setupMockAudio ?c2 env = Inr c'"
      using assms(2) \<open>getUserMedia env = Inr tracks\<close> Inl p
      by (auto simp: initializeAudio_def Let_def split: sum.splits)
    ultimately show ?thesis using ping_timer_registered_setupMockAudio by blast
  qed
qed

lemma ping_timer_registered_connectWebSocket:
  "ping_timer_registered c \<Longrightarrow>
   connectWebSocket c env = Inr c' \<or> connectWebSocket c env = Inl (e, c') \<Longrightarrow>
   ping_timer_registered c'"
  by (auto simp: connectWebSocket_def Let_def emit_def sendControlMessage_def
        ping_timer_registered_def split: ws_outcome.splits)

lemma ping_timer_registered_connect:
  assumes "ping_timer_registered c"
  shows "ping_timer_registered (connect c env)"
proof -
  let ?c0 = "updateStatus c Connecting TxtConnecting"
  have r0: "ping_timer_registered ?c0" using assms by simp
  show ?thesis
  proof (cases "initializeAudio ?c0 env")
    case (Inl p)
    obtain e c1 where p: "p = (e, c1)" by (cases p)
    have "ping_timer_registered c1"
      using ping_timer_registered_initializeAudio [OF r0] Inl p by blast
    then show ?thesis
      using Inl p by (simp add: connect_def connect_catch_def ping_timer_registered_cleanup)
  next
    case (Inr c1)
    have r1: "ping_timer_registered c1"
      using ping_timer_registered_initializeAudio [OF r0] Inr by blast
    show ?thesis
    proof (cases "connectWebSocket c1 env")
      case (Inl p)
      obtain e c2 where p: "p = (e, c2)" by (cases p)
      have "ping_timer_registered c2"
        using ping_timer_registered_connectWebSocket [OF r1] Inl p by blast
      then show ?thesis
        using Inr Inl p
        by (simp add: connect_def connect_catch_def ping_timer_registered_cleanup)
    next
      case (Inr c2)
      have "ping_timer_registered c2"
        using ping_timer_registered_connectWebSocket [OF r1] Inr by blast
      then show ?thesis
        using \<open>initializeAudio ?c0 env = Inr c1\<close> Inr
        by (simp add: connect_def) (simp add: ping_timer_registered_def)
    qed
  qed
qed

lemma ping_timer_registered_port_onmessage:
  "ping_timer_registered (port_onmessage c type data) = ping_timer_registered c"
  by (simp add: port_onmessage_def updateAudioVisualizer_def sendAudioData_def
        split: option.splits ready_state.splits)

lemma ping_timer_registered_frames:
  "ping_timer_registered (foldl (\<lambda>c' f. port_onmessage c' type f) c frames)
     = ping_timer_registered c"
  by (induction frames arbitrary: c) (simp_all add: ping_timer_registered_port_onmessage)

lemma ping_timer_registered_capture:
  "ping_timer_registered c \<Longrightarrow> ping_timer_registered (capture c inputs outputs)"
  by (auto simp: capture_def ping_timer_registered_frames split: option.splits sum.splits)
     (simp add: ping_timer_registered_def)

lemma ping_timer_registered_timer_fires:
  "ping_timer_registered c \<Longrightarrow> ping_timer_registered (timer_fires c i mockData chance)"
  by (auto simp: timer_fires_def mock_callback_def ping_callback_def updateAudioVisualizer_def
        sendAudioData_def sendControlMessage_def Let_def
        split: option.splits timer_callback.splits ready_state.splits)

lemma ping_timer_registered_catch [simp]:
  "ping_timer_registered (playAudioResponse_catch c e) = ping_timer_registered c"
  by (simp add: playAudioResponse_catch_def)

lemma ping_timer_registered_step:
  assumes "ping_timer_registered c"
  shows "ping_timer_registered (step c e)"
proof (cases e)
  case (ConnectBtnClick env)
  then show ?thesis
    using assms
    by (simp add: disconnect_def ping_timer_registered_cleanup ping_timer_registered_connect)
next
  case MuteBtnClick
  then show ?thesis
    using assms by (simp add: toggleMute_def Let_def) (simp add: ping_timer_registered_def)
next
  case (SocketClose held)
  then show ?thesis
    using assms by (simp add: ws_onclose_def Let_def) (simp add: ping_timer_registered_def emit_def)
next
  case (SocketMessage f)
  then show ?thesis
    using assms
    by (cases f)
       (auto simp: ws_onmessage_def handleControlMessage_def playAudioResponse_begin_def Let_def
          split: json_text.splits inbound_message.splits option.splits)
next
  case (DecodeSettled decoded start_error)
  then show ?thesis
    using assms
    by (simp add: playAudioResponse_resume_def split: decode_result.splits option.splits)
next
  case SourceEnded
  then show ?thesis using assms by (simp add: source_onended_def)
next
  case (TimerFires i mockData chance)
  then show ?thesis using assms by (simp add: ping_timer_registered_timer_fires)
next
  case (RenderQuantum inputs outputs)
  then show ?thesis using assms by (simp add: ping_timer_registered_capture)
next
  case BeforeUnload
  then show ?thesis using assms by (simp add: ping_timer_registered_cleanup)
qed

lemma ping_timer_registered_page_load:
  "ping_timer_registered (page_load connectBtn_text muteBtn_dis muteBtn_text)"
  by (simp add: page_load_def startPingInterval_def setInterval_def new_VoiceBotClient_def
        ping_timer_registered_def Let_def)

lemma ping_timer_registered_run:
  "ping_timer_registered c \<Longrightarrow> ping_timer_registered (run c es)"
  unfolding run_def
  by (induction es arbitrary: c) (simp_all add: ping_timer_registered_step)

lemma fire_times_window:
  assumes "start \<le> a" and "0 < period"
  shows "interval_fire_times start period a (a + 3 * period) =
           [start + period * Suc ((a - start) div period),
            start + period * Suc ((a - start) div period) + period,
            start + period * Suc ((a - start) div period) + 2 * period]"
proof -
  define q where "q = (a - start) div period"
  define r where "r = (a - start) mod period"
  have dec: "a - start = period * q + r" and r: "r < period"
    using assms(2) unfolding q_def r_def by simp_all
  have qd: "period * q \<le> a - start" "a - start < period * Suc q"
    using dec r by simp_all
  have "a + 3 * period - start = period * (q + 3) + r"
    using dec assms(1) by (simp add: algebra_simps)
  then have "(a + 3 * period - start) div period = q + 3"
    using r by simp
  then have up: "[1 ..< Suc ((a + 3 * period - start) div period)] = [1 ..< Suc q] @ [Suc q, Suc (Suc q), Suc (Suc (Suc q))]"
    by (simp add: upt_rec [of "Suc q"] upt_rec [of "Suc (Suc q)"] upt_rec [of "Suc (Suc (Suc q))"] upt_add_eq_append [of 1 "Suc q" 3, simplified])
  have early: "filter (\<lambda>t. a < t) (map (\<lambda>k. start + period * k) [1 ..< Suc q]) = []"
  proof -
    have "\<not> a < start + period * k" if "k < Suc q" for k
    proof -
      from that have "period * k \<le> period * q" by simp
      with qd(1) assms(1) show ?thesis by linarith
    qed
    then show ?thesis by (auto simp: filter_empty_conv)
  qed
  have late: "a < start + period * Suc q" using qd(2) assms(1) by linarith
  then have "a < start + period * Suc (Suc q)" "a < start + period * Suc (Suc (Suc q))" by simp_all
  with late early show ?thesis
    unfolding interval_fire_times_def up q_def [symmetric] by simp
qed

lemma timer_fires_ping:
  assumes "map_of (intervals c) timerId = Some (PingCallback, period)"
    and "isConnected c" and "ws c = Some OPEN"
  shows "timer_fires c timerId mockData chance = emit c [WsSendText (ControlMessage ''ping'' None)]"
  using assms by (simp add: timer_fires_def ping_callback_def sendControlMessage_def)

lemma fire_timer_pings:
  assumes "map_of (intervals c) timerId = Some (PingCallback, period)"
    and "isConnected c" and "ws c = Some OPEN"
  shows "fire_timer c timerId noise ts =
           (map (\<lambda>t. (t, [WsSendText (ControlMessage ''ping'' None)])) ts,
            emit c (replicate (length ts) (WsSendText (ControlMessage ''ping'' None))))"
  using assms
proof (induction ts arbitrary: c)
  case Nil
  then show ?case by (simp add: emit_def)
next
  case (Cons t ts)
  let ?ping = "WsSendText (ControlMessage ''ping'' None)"
  let ?c' = "emit c [?ping]"
  have f: "timer_fires c timerId (fst (noise t)) (snd (noise t)) = ?c'"
    using Cons.prems by (rule timer_fires_ping)
  have "map_of (intervals ?c') timerId = Some (PingCallback, period)"
    "isConnected ?c'" "ws ?c' = Some OPEN"
    using Cons.prems by (simp_all add: emit_def)
  from Cons.IH [OF this, of ]
  have ih: "fire_timer ?c' timerId noise ts =
      (map (\<lambda>t. (t, [?ping])) ts, emit ?c' (replicate (length ts) ?ping))" .
  show ?case
    by (simp add: f ih Let_def) (simp add: emit_def)
qed

lemma timer_fires_not_connected:
  "\<not> isConnected c \<Longrightarrow> timer_fires c timerId mockData chance = c"
  by (simp add: timer_fires_def mock_callback_def ping_callback_def
        split: option.splits timer_callback.splits)

text \<open>
  C6. In every state the page reaches from its load, the timer started by
  \<^verbatim>\<open>startPingInterval\<close> is registered with a period of 30000 ms, and it is the only
  timer with the ping callback. In any 90 seconds that follow a moment \<open>a\<close> not earlier
  than its start, it fires three times, 30 seconds apart, the first time within 30
  seconds of \<open>a\<close>; if the session is connected and its socket open, each firing sends
  one ping and nothing else. While the client is not connected, no firing of any timer
  sends anything.
\<close>

theorem heartbeat_every_30_seconds:
  assumes "c = run (page_load connectBtn_text muteBtn_dis muteBtn_text) es"
    and "isConnected c" and "ws c = Some OPEN" and "start \<le> a"
  shows "map_of (intervals c) 1 = Some (PingCallback, 30000) \<and>
         filter (\<lambda>x. fst (snd x) = PingCallback) (intervals c) = [(1, PingCallback, 30000)] \<and>
         timer_schedule c 1 start a (a + 90000) =
           [start + 30000 * Suc ((a - start) div 30000),
            start + 30000 * Suc ((a - start) div 30000) + 30000,
            start + 30000 * Suc ((a - start) div 30000) + 60000] \<and>
         fire_timer c 1 noise (timer_schedule c 1 start a (a + 90000)) =
           ([(start + 30000 * Suc ((a - start) div 30000),
                [WsSendText (ControlMessage ''ping'' None)]),
             (start + 30000 * Suc ((a - start) div 30000) + 30000,
                [WsSendText (ControlMessage ''ping'' None)]),
             (start + 30000 * Suc ((a - start) div 30000) + 60000,
                [WsSendText (ControlMessage ''ping'' None)])],
            emit c [WsSendText (ControlMessage ''ping'' None),
                    WsSendText (ControlMessage ''ping'' None),
                    WsSendText (ControlMessage ''ping'' None)]) \<and>
         a < start + 30000 * Suc ((a - start) div 30000) \<and>
         start + 30000 * Suc ((a - start) div 30000) \<le> a + 30000 \<and>
         (\<not> isConnected c' \<longrightarrow> timer_fires c' timerId mockData chance = c')"
proof -
  let ?ping = "WsSendText (ControlMessage ''ping'' None)"
  have reg: "ping_timer_registered c"
    unfolding assms(1) by (rule ping_timer_registered_run) (rule ping_timer_registered_page_load)
  then have look: "map_of (intervals c) 1 = Some (PingCallback, 30000)"
    and only: "filter (\<lambda>x. fst (snd x) = PingCallback) (intervals c) = [(1, PingCallback, 30000)]"
    by (simp_all add: ping_timer_registered_def)
  have w: "timer_schedule c 1 start a (a + 90000) =
           [start + 30000 * Suc ((a - start) div 30000),
            start + 30000 * Suc ((a - start) div 30000) + 30000,
            start + 30000 * Suc ((a - start) div 30000) + 60000]"
    unfolding timer_schedule_def look
    using fire_times_window [OF assms(4), of 30000] by simp
  note run = fire_timer_pings [OF look assms(2,3), of noise]
  have dec: "a - start = 30000 * ((a - start) div 30000) + (a - start) mod 30000" by simp
  have r: "(a - start) mod 30000 < 30000" by simp
  have b1: "a < start + 30000 * Suc ((a - start) div 30000)"
    using dec r assms(4) by (simp only: mult_Suc_right; linarith)
  have b2: "start + 30000 * Suc ((a - start) div 30000) \<le> a + 30000"
    using dec assms(4) by (simp only: mult_Suc_right; linarith)
  have off: "\<not> isConnected c' \<longrightarrow> timer_fires c' timerId mockData chance = c'"
    by (simp add: timer_fires_not_connected)
  show ?thesis
    unfolding w run using look only b1 b2 off by simp
qed

theorem heartbeat_every_30_seconds_witness:
  "connect fresh_page no_mic_env = run (page_load BtnConnect True BtnMute) [ConnectBtnClick no_mic_env] \<and>
   isConnected (connect fresh_page no_mic_env) \<and> ws (connect fresh_page no_mic_env) = Some OPEN \<and>
   (0::nat) \<le> 5000 \<and>
   timer_schedule (connect fresh_page no_mic_env) 1 0 5000 95000 = [30000, 60000, 90000] \<and>
   fst (fire_timer (connect fresh_page no_mic_env) 1 (\<lambda>t. ([], False))
          (timer_schedule (connect fresh_page no_mic_env) 1 0 5000 95000)) =
     [(30000, [WsSendText (ControlMessage ''ping'' None)]),
      (60000, [WsSendText (ControlMessage ''ping'' None)]),
      (90000, [WsSendText (ControlMessage ''ping'' None)])] \<and>
   \<not> isConnected fresh_page \<and>
   timer_fires fresh_page 1 [] False = fresh_page"
proof -
  have r: "connect fresh_page no_mic_env
      = run (page_load BtnConnect True BtnMute) [ConnectBtnClick no_mic_env]"
    by (simp add: run_def fresh_page_def [symmetric]) (simp add: fresh_page_eq)
  have h: "isConnected (connect fresh_page no_mic_env)" "ws (connect fresh_page no_mic_env) = Some OPEN"
    "(0::nat) \<le> 5000"
    by (simp_all add: connect_no_mic)
  have n: "\<not> isConnected fresh_page" by (simp add: fresh_page_eq)
  note th = heartbeat_every_30_seconds [OF r h, where c' = fresh_page and timerId = 1
      and mockData = "[]" and chance = False and noise = "\<lambda>t. ([], False)"]
  have sched: "timer_schedule (connect fresh_page no_mic_env) 1 0 5000 95000 = [30000, 60000, 90000]"
    using th by simp
  have fired: "fst (fire_timer (connect fresh_page no_mic_env) 1 (\<lambda>t. ([], False))
          (timer_schedule (connect fresh_page no_mic_env) 1 0 5000 95000)) =
     [(30000, [WsSendText (ControlMessage ''ping'' None)]),
      (60000, [WsSendText (ControlMessage ''ping'' None)]),
      (90000, [WsSendText (ControlMessage ''ping'' None)])]"
    using th [THEN conjunct2, THEN conjunct2, THEN conjunct2, THEN conjunct1]
    by simp
  have quiet: "timer_fires fresh_page 1 [] False = fresh_page"
    using th n by simp
  show ?thesis
    using r h n sched fired quiet by (intro conjI)
qed

section \<open>Inbound audio: proofs\<close>

text \<open>
  What \<^verbatim>\<open>playAudioResponse\<close> does when it is called: the status is
  \<^verbatim>\<open>speaking\<close> on entry; a failure of the decoder or of the playback is logged once,
  nothing is rendered, and the status is \<^verbatim>\<open>connected\<close>; a playback that starts
  leaves the status at \<^verbatim>\<open>speaking\<close> until the source ends. The connection flag, the
  socket, the resources and the timers are untouched.
\<close>

lemma playAudioResponse_outcomes:
  "(audioContext c = Some ctx \<longrightarrow>
      playAudioResponse_begin c = (True, updateStatus c Speaking TxtSpeaking) \<and>
      status_className (playAudioResponse c (DecodeRejected m) start_error) = Connected \<and>
      new_effects c (playAudioResponse c (DecodeRejected m) start_error)
        = [ConsoleError ''Error playing audio response:'' (Some (PlatformError m))] \<and>
      status_className (playAudioResponse c Decoded (Some m)) = Connected \<and>
      new_effects c (playAudioResponse c Decoded (Some m))
        = [ConsoleError ''Error playing audio response:'' (Some (PlatformError m))] \<and>
      status_className (playAudioResponse c Decoded None) = Speaking \<and>
      new_effects c (playAudioResponse c Decoded None) = [SourceStart] \<and>
      status_className (source_onended (playAudioResponse c Decoded None)) = Connected) \<and>
   (audioContext c = None \<longrightarrow>
      status_className (playAudioResponse c decoded start_error) = Connected \<and>
      new_effects c (playAudioResponse c decoded start_error)
        = [ConsoleError ''Error playing audio response:'' (Some NullTypeError)]) \<and>
   isConnected (playAudioResponse c decoded start_error) = isConnected c \<and>
   ws (playAudioResponse c decoded start_error) = ws c \<and>
   audioContext (playAudioResponse c decoded start_error) = audioContext c \<and>
   mediaStream (playAudioResponse c decoded start_error) = mediaStream c \<and>
   audioWorkletNode (playAudioResponse c decoded start_error) = audioWorkletNode c \<and>
   mockAudioInterval (playAudioResponse c decoded start_error) = mockAudioInterval c \<and>
   intervals (playAudioResponse c decoded start_error) = intervals c \<and>
   isConnected (source_onended c) = isConnected c \<and> ws (source_onended c) = ws c"
  by (cases "audioContext c"; cases decoded; cases start_error)
     (simp_all add: playAudioResponse_def playAudioResponse_begin_def playAudioResponse_resume_def
        playAudioResponse_catch_def source_onended_def updateStatus_def emit_def new_effects_def
        Let_def)

text \<open>
  C8. The function above is never called for a frame that arrives on the socket. The
  socket delivers a binary frame as a \<^verbatim>\<open>Blob\<close>, the handler tests for an
  \<^verbatim>\<open>ArrayBuffer\<close>, and the frame goes to \<^verbatim>\<open>JSON.parse\<close>, which raises: the client
  is left as it was, the status does not become \<^verbatim>\<open>speaking\<close>, and nothing is
  rendered or logged by the client.
\<close>

theorem binary_frame_never_played:
  "ws_onmessage c (inbound (BinaryFrame payload)) = Inl (JsonSyntaxError, c) \<and>
   step c (SocketMessage (BinaryFrame payload)) = c \<and>
   status_className
     (step (connect fresh_page no_mic_env) (SocketMessage (BinaryFrame [82, 73, 70, 70])))
     = Connected \<and>
   new_effects (connect fresh_page no_mic_env)
     (step (connect fresh_page no_mic_env) (SocketMessage (BinaryFrame [82, 73, 70, 70]))) = []"
  by (simp add: ws_onmessage_def new_effects_def connect_no_mic)

end
